theory Spec2Isabelle
  imports Complex_Main "HOL-Library.Product_Lexorder"
begin

section \<open>The cache behind the reset code and the session token (utils.py)\<close>

text \<open>
  \<^verbatim>\<open>django.core.cache.cache\<close> is a key-value store whose entries carry an expiry
  instant. An entry is live while the clock is strictly before its expiry; an expired
  entry reads as absent. The store is a map from the key to the stored string and the
  expiry instant (seconds); the clock reading of a call is an argument of the call.
\<close>

type_synonym cache = "string \<rightharpoonup> (string \<times> real)"

definition cache_get :: "cache \<Rightarrow> real \<Rightarrow> string \<Rightarrow> string option" where
  "cache_get c now k =
     (case c k of
        None \<Rightarrow> None
      | Some (v, expiry) \<Rightarrow> if now < expiry then Some v else None)"

text \<open>\<^verbatim>\<open>cache.add(key, value, timeout)\<close> stores only when the key has no live entry.\<close>

definition cache_add :: "cache \<Rightarrow> real \<Rightarrow> string \<Rightarrow> string \<Rightarrow> real \<Rightarrow> cache" where
  "cache_add c now k v timeout =
     (if cache_get c now k = None then c(k \<mapsto> (v, now + timeout)) else c)"

definition cache_delete :: "cache \<Rightarrow> string \<Rightarrow> cache" where
  "cache_delete c k = c(k := None)"

subsection \<open>ResetCodeManager\<close>

text \<open>\<^verbatim>\<open>__ttl = timedelta(minutes=2)\<close>, used as \<^verbatim>\<open>cls.__ttl.seconds\<close>.\<close>

definition reset_code_ttl :: real where
  "reset_code_ttl = 120"

text \<open>
  \<^verbatim>\<open>"".join(random.choices(string.digits, k=4))\<close>: the draw is an argument of the
  call (\<open>rnd\<close>); \<open>is_reset_code\<close> says what the generator can draw.
\<close>

definition is_reset_code :: "string \<Rightarrow> bool" where
  "is_reset_code s = (length s = 4 \<and> list_all (\<lambda>ch. ch \<in> set ''0123456789'') s)"

text \<open>
  \<^verbatim>\<open>
  def get_or_create_code(cls, email):
      key = email + "__code"
      code = cache.get(key, None)
      if code is not None:
          return code
      code = "".join(random.choices(string.digits, k=4))
      cache.add(key, code, timeout=cls.__ttl.seconds)
      return cache.get(key)
  \<close>
  The result is what the last \<^verbatim>\<open>cache.get\<close> reads, so it is an option.
\<close>

definition get_or_create_code ::
  "real \<Rightarrow> string \<Rightarrow> string \<Rightarrow> cache \<Rightarrow> string option \<times> cache" where
  "get_or_create_code now rnd email c =
     (let key = email @ ''__code'' in
      case cache_get c now key of
        Some code \<Rightarrow> (Some code, c)
      | None \<Rightarrow>
          (let c' = cache_add c now key rnd reset_code_ttl
           in (cache_get c' now key, c')))"

text \<open>
  \<^verbatim>\<open>
  def try_use_code(cls, email, code):
      key = email + "__code"
      if cache.get(key) != code:
          return False
      cache.delete(key)
      return True
  \<close>
\<close>

definition try_use_code :: "real \<Rightarrow> string \<Rightarrow> string \<Rightarrow> cache \<Rightarrow> bool \<times> cache" where
  "try_use_code now email code c =
     (let key = email @ ''__code'' in
      if cache_get c now key \<noteq> Some code then (False, c)
      else (True, cache_delete c key))"

subsection \<open>SessionTokenManager\<close>

text \<open>\<^verbatim>\<open>__ttl = timedelta(minutes=10)\<close>.\<close>

definition session_token_ttl :: real where
  "session_token_ttl = 600"

definition get_or_create_token ::
  "real \<Rightarrow> string \<Rightarrow> string \<Rightarrow> cache \<Rightarrow> string option \<times> cache" where
  "get_or_create_token now rnd email c =
     (let key = email @ ''__token'' in
      case cache_get c now key of
        Some token \<Rightarrow> (Some token, c)
      | None \<Rightarrow>
          (let c' = cache_add c now key rnd session_token_ttl
           in (cache_get c' now key, c')))"

definition try_use_token :: "real \<Rightarrow> string \<Rightarrow> string \<Rightarrow> cache \<Rightarrow> bool \<times> cache" where
  "try_use_token now email token c =
     (let key = email @ ''__token'' in
      if cache_get c now key \<noteq> Some token then (False, c)
      else (True, cache_delete c key))"

section \<open>The data model (models.py)\<close>

text \<open>
  A user is its primary key. A coordinate is a Python float: a number, one of the two
  infinities, or NaN. A point is (longitude, latitude) in degrees (srid 4326),
  as \<^verbatim>\<open>"POINT({} {})".format(data["longitude"], data["latitude"])\<close> builds it.
  A \<^verbatim>\<open>DecimalField(max_digits=3, decimal_places=2)\<close> is an integer number of
  hundredths. The tables are lists in the order the database returns their rows.
\<close>

type_synonym user_id = nat

datatype py_float = Float real | PosInf | NegInf | NaN

text \<open>
  \<^verbatim>\<open>value < c\<close> and \<^verbatim>\<open>value > c\<close> for a float and a number \<open>c\<close>: every comparison
  with NaN is false.
\<close>

fun float_less :: "py_float \<Rightarrow> real \<Rightarrow> bool" where
  "float_less (Float x) c = (x < c)"
| "float_less PosInf c = False"
| "float_less NegInf c = True"
| "float_less NaN c = False"

fun float_greater :: "py_float \<Rightarrow> real \<Rightarrow> bool" where
  "float_greater (Float x) c = (x > c)"
| "float_greater PosInf c = True"
| "float_greater NegInf c = False"
| "float_greater NaN c = False"

type_synonym point = "py_float \<times> py_float"

record place =
  place_id :: nat
  added_by :: user_id
  place_name :: string
  description :: string
  address :: string
  category :: string
  location :: point

record place_rating =
  rating_id :: nat
  rating_user :: user_id
  rating_place :: nat
  rating_value :: int

record database =
  places :: "place list"
  place_ratings :: "place_rating list"

text \<open>\<^verbatim>\<open>user.places\<close>: the reverse side of \<^verbatim>\<open>Place.added_by\<close>.\<close>

definition user_places :: "database \<Rightarrow> user_id \<Rightarrow> place list" where
  "user_places db user = filter (\<lambda>p. added_by p = user) (places db)"

section \<open>The spatial backend\<close>

text \<open>
  The three spatial operations the queries call are computed by the database, not by
  this repository, so they are parameters of the model:
  \<^item> \<open>dwithin a b r\<close>: the lookup \<^verbatim>\<open>location__dwithin=(point, r)\<close>, \<open>r\<close> in degrees;
  \<^item> \<open>distance_km a b\<close>: the distance that \<^verbatim>\<open>location__distance_lte=(point, D(km=d))\<close>
    compares with \<open>d\<close>, in kilometres;
  \<^item> \<open>geometry_distance a b\<close>: the annotation \<^verbatim>\<open>GeometryDistance("location", point)\<close>.
\<close>

record geo_backend =
  dwithin :: "point \<Rightarrow> point \<Rightarrow> real \<Rightarrow> bool"
  distance_km :: "point \<Rightarrow> point \<Rightarrow> real"
  geometry_distance :: "point \<Rightarrow> point \<Rightarrow> real"

section \<open>Validators (validators.py)\<close>

datatype validation = Passes | Raises string

definition validate_latitude :: "py_float \<Rightarrow> validation" where
  "validate_latitude v =
     (if float_less v (- 90) \<or> float_greater v 90 then Raises ''Latitude is supposed to be between -90 and 90.''
      else Passes)"

definition validate_longitude :: "py_float \<Rightarrow> validation" where
  "validate_longitude v =
     (if float_less v (- 180) \<or> float_greater v 180 then Raises ''Longitude is supposed to be between -180 and 180.''
      else Passes)"

definition validate_rating :: "int \<Rightarrow> validation" where
  "validate_rating v =
     (if v < 0 \<or> v > 500 then Raises ''Rating is supposed to be from 0 to 5.'' else Passes)"

definition validate_distance :: "real \<Rightarrow> validation" where
  "validate_distance v =
     (if v \<le> 0 \<or> v \<ge> 40076 then Raises ''Distance must be between 0 and 40076 kilometers.''
      else Passes)"

definition validate_place_ordering :: "string \<Rightarrow> validation" where
  "validate_place_ordering v =
     (if v \<notin> set [''distance'', ''-distance'', ''rating'', ''-rating'']
      then Raises ''Unallowed value for ordering.'' else Passes)"

definition allowed_categories :: "string list" where
  "allowed_categories =
     [''barsAndPubs'', ''hookahBars'', ''cafesAndRestaurants'', ''coffeeHouses'',
      ''pastryShopsAndBakeries'', ''attractions'', ''art'', ''city'', ''sport'', ''other'']"

definition validate_category :: "string \<Rightarrow> validation" where
  "validate_category v =
     (if v \<notin> set allowed_categories then Raises ''Unallowed category.'' else Passes)"

section \<open>The fields of PlaceFilterNewSerializer (serializers.py)\<close>

text \<open>
  A request body gives each field or leaves it out. A field that is given holds a value
  of the field's own kind: a boolean, a float for a coordinate (\<^verbatim>\<open>FloatField\<close> reads
  the strings \<^verbatim>\<open>"nan"\<close> and \<^verbatim>\<open>"inf"\<close> as Python's \<^verbatim>\<open>float\<close> does), a number of
  kilometres for the distance, a decimal in hundredths, a string, a list of strings. A
  string is a list of characters with code points below 256.
\<close>

record request_data =
  req_apply_filters :: "bool option"
  req_split_categories :: "bool option"
  req_latitude :: "py_float option"
  req_longitude :: "py_float option"
  req_distance :: "real option"
  req_categories :: "string list option"
  req_rating :: "int option"
  req_ordering :: "string option"

text \<open>The validated data: optional fields that were left out stay out.\<close>

record filter_data =
  apply_filters :: bool
  split_categories :: bool
  latitude :: py_float
  longitude :: py_float
  distance :: "real option"
  categories :: "string list option"
  rating :: "int option"
  ordering :: "string option"

text \<open>\<^verbatim>\<open>required=True\<close> and \<^verbatim>\<open>required=False\<close>, then the field's validators.\<close>

definition run_validator :: "('a \<Rightarrow> validation) \<Rightarrow> 'a \<Rightarrow> string + 'a" where
  "run_validator validator v = (case validator v of Raises msg \<Rightarrow> Inl msg | Passes \<Rightarrow> Inr v)"

definition required_field :: "('a \<Rightarrow> string + 'b) \<Rightarrow> 'a option \<Rightarrow> string + 'b" where
  "required_field field raw =
     (case raw of None \<Rightarrow> Inl ''This field is required.'' | Some v \<Rightarrow> field v)"

definition optional_field :: "('a \<Rightarrow> string + 'b) \<Rightarrow> 'a option \<Rightarrow> string + 'b option" where
  "optional_field field raw =
     (case raw of
        None \<Rightarrow> Inr None
      | Some v \<Rightarrow> (case field v of Inl msg \<Rightarrow> Inl msg | Inr x \<Rightarrow> Inr (Some x)))"

text \<open>
  \<^verbatim>\<open>serializers.CharField(max_length=50)\<close>: the value is stripped of surrounding
  whitespace (\<^verbatim>\<open>trim_whitespace\<close> is on by default), a blank value is refused
  (\<^verbatim>\<open>allow_blank\<close> is off by default), then the length bound and the field's
  standing refusal of NUL characters apply. Python's \<^verbatim>\<open>str.strip()\<close> removes the
  characters that \<^verbatim>\<open>str.isspace\<close> accepts; below code point 256 these are the tab to
  carriage return (0x09 to 0x0D), the separators 0x1C to 0x1F, the space, the next-line
  character 0x85 and the no-break space 0xA0.
\<close>

definition is_whitespace :: "char \<Rightarrow> bool" where
  "is_whitespace ch = (ch \<in> set [CHR '' '', CHR 0x09, CHR 0x0A, CHR 0x0B, CHR 0x0C, CHR 0x0D,
                                  CHR 0x1C, CHR 0x1D, CHR 0x1E, CHR 0x1F, CHR 0x85, CHR 0xA0])"

text \<open>\<^verbatim>\<open>str(n)\<close> for a natural number, as the length message prints its bound.\<close>

fun str_nat :: "nat \<Rightarrow> string" where
  "str_nat n =
     (if n < 10 then [''0123456789'' ! n]
      else str_nat (n div 10) @ [''0123456789'' ! (n mod 10)])"

declare str_nat.simps [simp del]

definition strip :: "string \<Rightarrow> string" where
  "strip s = rev (dropWhile is_whitespace (rev (dropWhile is_whitespace s)))"

definition char_field :: "nat \<Rightarrow> string \<Rightarrow> string + string" where
  "char_field max_length raw =
     (let v = strip raw in
      if v = [] then Inl ''This field may not be blank.''
      else if length v > max_length
      then Inl (''Ensure this field has no more than '' @ str_nat max_length @ '' characters.'')
      else if CHR 0x00 \<in> set v then Inl ''Null characters are not allowed.''
      else Inr v)"

text \<open>\<^verbatim>\<open>serializers.ListField(child=...)\<close>: every member goes through the child field.\<close>

fun run_child_validation :: "('a \<Rightarrow> string + 'b) \<Rightarrow> 'a list \<Rightarrow> string + 'b list" where
  "run_child_validation child [] = Inr []"
| "run_child_validation child (x # xs) =
     (case child x of
        Inl msg \<Rightarrow> Inl msg
      | Inr v \<Rightarrow>
          (case run_child_validation child xs of
             Inl msg \<Rightarrow> Inl msg
           | Inr vs \<Rightarrow> Inr (v # vs)))"

text \<open>
  \<^verbatim>\<open>serializers.DecimalField(3, 2)\<close>: at most three digits, two of them decimal
  places, so at most 999 hundredths either side of zero.
\<close>

definition decimal_field_3_2 :: "int \<Rightarrow> string + int" where
  "decimal_field_3_2 v =
     (if \<bar>v\<bar> > 999 then Inl ''Ensure that there are no more than 3 digits in total.''
      else Inr v)"

text \<open>
  The eight declared fields, in the order the serializer declares them:
  \<^verbatim>\<open>
  apply_filters = serializers.BooleanField(required=True)
  split_categories = serializers.BooleanField(required=True)
  latitude = serializers.FloatField(required=True, validators=[validate_latitude])
  longitude = serializers.FloatField(required=True, validators=[validate_longitude])
  distance = serializers.FloatField(required=False, validators=[validate_distance])
  categories = serializers.ListField(
      required=False, child=serializers.CharField(max_length=50))
  rating = serializers.DecimalField(3, 2, required=False)
  ordering = serializers.CharField(
      required=False, max_length=50, validators=[validate_place_ordering])
  \<close>
  Neither \<open>validate_category\<close> nor \<open>validate_rating\<close> is attached to a field of this
  serializer.
\<close>

definition field_apply_filters :: "bool option \<Rightarrow> string + bool" where
  "field_apply_filters = required_field Inr"

definition field_split_categories :: "bool option \<Rightarrow> string + bool" where
  "field_split_categories = required_field Inr"

definition field_latitude :: "py_float option \<Rightarrow> string + py_float" where
  "field_latitude = required_field (run_validator validate_latitude)"

definition field_longitude :: "py_float option \<Rightarrow> string + py_float" where
  "field_longitude = required_field (run_validator validate_longitude)"

definition field_distance :: "real option \<Rightarrow> string + real option" where
  "field_distance = optional_field (run_validator validate_distance)"

definition field_categories :: "string list option \<Rightarrow> string + string list option" where
  "field_categories = optional_field (run_child_validation (char_field 50))"

definition field_rating :: "int option \<Rightarrow> string + int option" where
  "field_rating = optional_field decimal_field_3_2"

definition field_ordering :: "string option \<Rightarrow> string + string option" where
  "field_ordering =
     optional_field (\<lambda>raw. case char_field 50 raw of
                              Inl msg \<Rightarrow> Inl msg
                            | Inr v \<Rightarrow> run_validator validate_place_ordering v)"

text \<open>
  \<^verbatim>\<open>serializer.is_valid()\<close>: the errors of all fields, by field name, or the validated
  data when no field fails.
\<close>

definition field_errors :: "string \<Rightarrow> string + 'a \<Rightarrow> (string \<times> string) list" where
  "field_errors field_name r = (case r of Inl msg \<Rightarrow> [(field_name, msg)] | Inr _ \<Rightarrow> [])"

definition is_valid :: "request_data \<Rightarrow> (string \<times> string) list + filter_data" where
  "is_valid req =
     (let a = field_apply_filters (req_apply_filters req);
          s = field_split_categories (req_split_categories req);
          la = field_latitude (req_latitude req);
          lo = field_longitude (req_longitude req);
          d = field_distance (req_distance req);
          cs = field_categories (req_categories req);
          r = field_rating (req_rating req);
          ord = field_ordering (req_ordering req);
          errors = field_errors ''apply_filters'' a @ field_errors ''split_categories'' s
                   @ field_errors ''latitude'' la @ field_errors ''longitude'' lo
                   @ field_errors ''distance'' d @ field_errors ''categories'' cs
                   @ field_errors ''rating'' r @ field_errors ''ordering'' ord
      in case a of Inl _ \<Rightarrow> Inl errors | Inr a' \<Rightarrow>
        (case s of Inl _ \<Rightarrow> Inl errors | Inr s' \<Rightarrow>
        (case la of Inl _ \<Rightarrow> Inl errors | Inr la' \<Rightarrow>
        (case lo of Inl _ \<Rightarrow> Inl errors | Inr lo' \<Rightarrow>
        (case d of Inl _ \<Rightarrow> Inl errors | Inr d' \<Rightarrow>
        (case cs of Inl _ \<Rightarrow> Inl errors | Inr cs' \<Rightarrow>
        (case r of Inl _ \<Rightarrow> Inl errors | Inr r' \<Rightarrow>
        (case ord of Inl _ \<Rightarrow> Inl errors | Inr ord' \<Rightarrow>
           Inr \<lparr> apply_filters = a', split_categories = s', latitude = la',
                 longitude = lo', distance = d', categories = cs', rating = r',
                 ordering = ord' \<rparr>))))))))"

section \<open>The filter engine (PlaceFilterNewSerializer.get_filters_applied_queryset)\<close>

datatype db_error = FieldError | CardinalityViolation

text \<open>
  \<^verbatim>\<open>
  if data["apply_filters"]:
      qs = self.context["user"].places.filter(location__dwithin=(current_point, 0.05))
  else:
      qs = self.context["user"].places.all()
  \<close>
\<close>

definition current_point :: "filter_data \<Rightarrow> point" where
  "current_point data = (longitude data, latitude data)"

definition base_queryset :: "geo_backend \<Rightarrow> database \<Rightarrow> user_id \<Rightarrow> filter_data \<Rightarrow> place list" where
  "base_queryset geo db user data =
     (if apply_filters data
      then filter (\<lambda>p. dwithin geo (location p) (current_point data) (5 / 100))
             (user_places db user)
      else user_places db user)"

text \<open>
  \<^verbatim>\<open>
  dist = data.get("distance", None) if data.get("distance", None) is not None else 5.0
  filter_data["location__distance_lte"] = (current_point, D(km=dist))
  if data.get("categories", None) is not None:
      filter_data["category__in"] = data["categories"]
  qs = qs.filter(**filter_data)
  \<close>
\<close>

definition dist_of :: "filter_data \<Rightarrow> real" where
  "dist_of data = (case distance data of Some d \<Rightarrow> d | None \<Rightarrow> 5)"

definition distance_category_filter :: "geo_backend \<Rightarrow> filter_data \<Rightarrow> place list \<Rightarrow> place list" where
  "distance_category_filter geo data qs =
     filter (\<lambda>p. distance_km geo (location p) (current_point data) \<le> dist_of data
                \<and> (case categories data of None \<Rightarrow> True | Some cs \<Rightarrow> category p \<in> set cs)) qs"

text \<open>
  \<^verbatim>\<open>
  if data.get("rating", None) is not None:
      place_ids_to_exclude = []
      for place in qs:
          ratings_from_author = place.ratings.filter(user=place.added_by)
          if (ratings_from_author.exists()
                  and ratings_from_author[0].rating < data["rating"]):
              place_ids_to_exclude.append(place.id)
      qs = qs.exclude(id__in=place_ids_to_exclude)
  \<close>
\<close>

definition ratings_from_author :: "database \<Rightarrow> place \<Rightarrow> place_rating list" where
  "ratings_from_author db p =
     filter (\<lambda>r. rating_place r = place_id p \<and> rating_user r = added_by p) (place_ratings db)"

definition author_rating_below :: "database \<Rightarrow> int \<Rightarrow> place \<Rightarrow> bool" where
  "author_rating_below db r p =
     (case ratings_from_author db p of [] \<Rightarrow> False | x # _ \<Rightarrow> rating_value x < r)"

fun place_ids_to_exclude :: "database \<Rightarrow> int \<Rightarrow> place list \<Rightarrow> nat list" where
  "place_ids_to_exclude db r [] = []"
| "place_ids_to_exclude db r (p # qs) =
     (if author_rating_below db r p then place_id p # place_ids_to_exclude db r qs
      else place_ids_to_exclude db r qs)"

definition exclude_ids :: "nat list \<Rightarrow> place list \<Rightarrow> place list" where
  "exclude_ids ids qs = filter (\<lambda>p. place_id p \<notin> set ids) qs"

definition rating_exclusion :: "database \<Rightarrow> filter_data \<Rightarrow> place list \<Rightarrow> place list" where
  "rating_exclusion db data qs =
     (case rating data of
        None \<Rightarrow> qs
      | Some r \<Rightarrow> exclude_ids (place_ids_to_exclude db r qs) qs)"

text \<open>
  \<^verbatim>\<open>"distance" in ordering\<close>: Python's substring test.
\<close>

fun starts_with :: "string \<Rightarrow> string \<Rightarrow> bool" where
  "starts_with [] ys = True"
| "starts_with (x # xs) [] = False"
| "starts_with (x # xs) (y # ys) = (x = y \<and> starts_with xs ys)"

fun py_in :: "string \<Rightarrow> string \<Rightarrow> bool" where
  "py_in xs [] = (xs = [])"
| "py_in xs (y # ys) = (starts_with xs (y # ys) \<or> py_in xs ys)"

text \<open>
  \<^verbatim>\<open>.order_by(ordering)\<close> on an annotation named \<open>field\<close>: ascending for the name,
  descending for the name after a minus sign. Rows with equal keys come in an order the
  database does not fix; the model keeps them as a stable sort does, and reversed when
  descending. Any other string does not name the annotation (the validator admits only
  the four names).
\<close>

definition order_by :: "string \<Rightarrow> string \<Rightarrow> ('a \<Rightarrow> 'k::linorder) \<Rightarrow> 'a list \<Rightarrow> db_error + 'a list" where
  "order_by field ord key qs =
     (if ord = field then Inr (sort_key key qs)
      else if ord = CHR ''-'' # field then Inr (rev (sort_key key qs))
      else Inl FieldError)"

text \<open>
  \<^verbatim>\<open>
  rating_subquery = PlaceRating.objects.filter(
      user=self.context["user"], place=OuterRef("pk")).values("rating")
  qs = qs.annotate(rating=Avg(rating_subquery, output_field=models.FloatField()))
  \<close>
  The subquery stands where SQL wants one value: no row reads as NULL, one row as its
  value, and more than one row is an error of the database. \<^verbatim>\<open>Avg\<close> is called with
  no \<^verbatim>\<open>default\<close>, so it is SQL's \<^verbatim>\<open>AVG\<close>: NULL inputs are left out, and the average
  of nothing is NULL (\<open>None\<close>).
\<close>

definition rating_subquery :: "database \<Rightarrow> user_id \<Rightarrow> place \<Rightarrow> int list" where
  "rating_subquery db user p =
     map rating_value
       (filter (\<lambda>r. rating_user r = user \<and> rating_place r = place_id p) (place_ratings db))"

definition scalar_subquery :: "'a list \<Rightarrow> db_error + 'a option" where
  "scalar_subquery rows =
     (case rows of
        [] \<Rightarrow> Inr None
      | [v] \<Rightarrow> Inr (Some v)
      | _ \<Rightarrow> Inl CardinalityViolation)"

definition Avg :: "real option list \<Rightarrow> real option" where
  "Avg inputs =
     (let vs = List.map_filter (\<lambda>x. x) inputs
      in if vs = [] then None else Some (sum_list vs / real (length vs)))"

definition decimal_to_float :: "int \<Rightarrow> real" where
  "decimal_to_float h = real_of_int h / 100"

definition rating_annotation :: "database \<Rightarrow> user_id \<Rightarrow> place \<Rightarrow> db_error + real option" where
  "rating_annotation db user p =
     (case scalar_subquery (rating_subquery db user p) of
        Inl e \<Rightarrow> Inl e
      | Inr v \<Rightarrow> Inr (Avg [map_option decimal_to_float v]))"

fun annotate_rating ::
  "database \<Rightarrow> user_id \<Rightarrow> place list \<Rightarrow> db_error + (place \<times> real option) list" where
  "annotate_rating db user [] = Inr []"
| "annotate_rating db user (p # qs) =
     (case rating_annotation db user p of
        Inl e \<Rightarrow> Inl e
      | Inr a \<Rightarrow>
          (case annotate_rating db user qs of
             Inl e \<Rightarrow> Inl e
           | Inr rest \<Rightarrow> Inr ((p, a) # rest)))"

text \<open>PostgreSQL sorts NULL after every value when ascending.\<close>

definition nulls_last :: "real option \<Rightarrow> bool \<times> real" where
  "nulls_last a = (case a of None \<Rightarrow> (True, 0) | Some v \<Rightarrow> (False, v))"

text \<open>
  \<^verbatim>\<open>
  ordering = data.get("ordering", "")
  if "distance" in ordering:
      qs = qs.annotate(distance=GeometryDistance("location", current_point)
          ).order_by(ordering)
  elif "rating" in ordering:
      qs = qs.annotate(rating=Avg(...)).order_by(ordering)
  \<close>
\<close>

definition apply_ordering ::
  "geo_backend \<Rightarrow> database \<Rightarrow> user_id \<Rightarrow> filter_data \<Rightarrow> place list \<Rightarrow> db_error + place list" where
  "apply_ordering geo db user data qs =
     (let ord = (case ordering data of None \<Rightarrow> [] | Some s \<Rightarrow> s) in
      if py_in ''distance'' ord
      then order_by ''distance'' ord
             (\<lambda>p. geometry_distance geo (location p) (current_point data)) qs
      else if py_in ''rating'' ord
      then (case annotate_rating db user qs of
              Inl e \<Rightarrow> Inl e
            | Inr annotated \<Rightarrow>
                (case order_by ''rating'' ord (\<lambda>pa. nulls_last (snd pa)) annotated of
                   Inl e \<Rightarrow> Inl e
                 | Inr sorted_rows \<Rightarrow> Inr (map fst sorted_rows)))
      else Inr qs)"

definition get_filters_applied_queryset ::
  "geo_backend \<Rightarrow> database \<Rightarrow> user_id \<Rightarrow> filter_data \<Rightarrow> db_error + place list" where
  "get_filters_applied_queryset geo db user data =
     (let qs = base_queryset geo db user data in
      if \<not> apply_filters data then Inr qs
      else apply_ordering geo db user data
             (rating_exclusion db data (distance_category_filter geo data qs)))"

section \<open>The rating shown with a place (GetPlaceSerializer.get_rating)\<close>

text \<open>
  \<^verbatim>\<open>
  def get_rating(self, current_place):
      queryset = current_place.ratings.filter(user=self.context["user"])
      if queryset.exists():
          return queryset[0].rating
      return 0
  \<close>
\<close>

definition get_rating :: "database \<Rightarrow> user_id \<Rightarrow> place \<Rightarrow> int" where
  "get_rating db user current_place =
     (case filter (\<lambda>r. rating_place r = place_id current_place \<and> rating_user r = user)
             (place_ratings db) of
        [] \<Rightarrow> 0
      | r # _ \<Rightarrow> rating_value r)"

section \<open>The view (FilterPlacesNewAPIView.post)\<close>

text \<open>
  \<^verbatim>\<open>
  categories = qs.values("category").annotate(Count("category"))
  categories = dict(
      (item["category"], qs.filter(category=item["category"])[:10])
      for item in categories if item["category__count"])
  \<close>
  One row for each category of the queryset, with the number of its places; a Python
  \<^verbatim>\<open>dict\<close> built from pairs keeps, for a repeated key, the last value.
\<close>

definition category_counts :: "place list \<Rightarrow> (string \<times> nat) list" where
  "category_counts qs =
     map (\<lambda>c. (c, length (filter (\<lambda>p. category p = c) qs))) (remdups (map category qs))"

definition dict_of :: "('k \<times> 'v) list \<Rightarrow> ('k \<rightharpoonup> 'v)" where
  "dict_of kvs = fold (\<lambda>kv m. m(fst kv \<mapsto> snd kv)) kvs Map.empty"

definition split_by_categories :: "place list \<Rightarrow> (string \<rightharpoonup> place list)" where
  "split_by_categories qs =
     dict_of (map (\<lambda>item. (fst item, take 10 (filter (\<lambda>p. category p = fst item) qs)))
                (filter (\<lambda>item. snd item \<noteq> 0) (category_counts qs)))"

text \<open>
  The response is a validation error (status 400), a failed query, or the body of a
  200 response: a dictionary from strings to booleans and lists of places. The search
  backend (\<^verbatim>\<open>self.filter_queryset(qs)\<close>) keeps the places that match the request's
  search term; it is the parameter \<open>search\<close>. The view sets no pagination class and
  the project's settings are not among the sources, so the model follows the branch in
  which \<^verbatim>\<open>self.paginate_queryset(qs)\<close> is \<^verbatim>\<open>None\<close>: the flat answer holds the
  whole queryset.
  \<^verbatim>\<open>
  serializer.is_valid(raise_exception=True)
  filters_applied = serializer.validated_data["apply_filters"]
  qs_categ_split = serializer.validated_data["split_categories"]
  qs = serializer.get_filters_applied_queryset()
  qs = self.filter_queryset(qs)
  if not qs_categ_split:
      ...
      return Response({"filters_applied": filters_applied,
                       "is_split": qs_categ_split, "places": serializer.data})
  ...
  return Response({"filters_applied": filters_applied,
                   "is_split": qs_categ_split, **data_split_by_categories})
  \<close>
\<close>

datatype json = JBool bool | JPlaces "place list"

datatype response =
  ValidationFailed "(string \<times> string) list"
| QueryFailed db_error
| Response200 "string \<rightharpoonup> json"

definition post ::
  "geo_backend \<Rightarrow> (place \<Rightarrow> bool) \<Rightarrow> database \<Rightarrow> user_id \<Rightarrow> request_data \<Rightarrow> response" where
  "post geo search db user req =
     (case is_valid req of
        Inl errors \<Rightarrow> ValidationFailed errors
      | Inr data \<Rightarrow>
          (case get_filters_applied_queryset geo db user data of
             Inl e \<Rightarrow> QueryFailed e
           | Inr qs0 \<Rightarrow>
               (let filters_applied = apply_filters data;
                    qs_categ_split = split_categories data;
                    qs = filter search qs0
                in if \<not> qs_categ_split
                   then Response200 [''filters_applied'' \<mapsto> JBool filters_applied,
                                     ''is_split'' \<mapsto> JBool qs_categ_split,
                                     ''places'' \<mapsto> JPlaces qs]
                   else Response200
                          ([''filters_applied'' \<mapsto> JBool filters_applied,
                            ''is_split'' \<mapsto> JBool qs_categ_split]
                           ++ (\<lambda>k. map_option JPlaces (split_by_categories qs k))))))"

section \<open>Example data\<close>

text \<open>
  A small database and a stand-in spatial backend (a taxicab metric, 111 km to the
  degree, reading a coordinate that is no number as 0) on which the theorems below are
  exercised.
\<close>

definition coord :: "py_float \<Rightarrow> real" where
  "coord v = (case v of Float x \<Rightarrow> x | _ \<Rightarrow> 0)"

definition taxicab :: "point \<Rightarrow> point \<Rightarrow> real" where
  "taxicab a b =
     \<bar>coord (fst a) - coord (fst b)\<bar> + \<bar>coord (snd a) - coord (snd b)\<bar>"

definition example_geo :: geo_backend where
  "example_geo =
     \<lparr> dwithin = (\<lambda>a b r. \<bar>coord (fst a) - coord (fst b)\<bar> \<le> r
                          \<and> \<bar>coord (snd a) - coord (snd b)\<bar> \<le> r),
       distance_km = (\<lambda>a b. 111 * taxicab a b),
       geometry_distance = taxicab \<rparr>"

definition example_place :: "nat \<Rightarrow> user_id \<Rightarrow> string \<Rightarrow> real \<times> real \<Rightarrow> place" where
  "example_place i u c loc =
     \<lparr> place_id = i, added_by = u, place_name = ''place'', description = [],
       address = ''street'', category = c, location = (Float (fst loc), Float (snd loc)) \<rparr>"

definition gallery :: place where
  "gallery = example_place 11 7 ''art'' (0, 0)"

definition studio :: place where
  "studio = example_place 12 7 ''art'' (1 / 100, 0)"

definition square :: place where
  "square = example_place 13 7 ''city'' (0, 2 / 100)"

definition suburb :: place where
  "suburb = example_place 14 7 ''city'' (4 / 100, 4 / 100)"

definition museum :: place where
  "museum = example_place 15 8 ''art'' (0, 0)"

definition example_db :: database where
  "example_db =
     \<lparr> places = [gallery, studio, square, suburb, museum],
       place_ratings =
         [\<lparr> rating_id = 21, rating_user = 7, rating_place = 11, rating_value = 450 \<rparr>,
          \<lparr> rating_id = 22, rating_user = 7, rating_place = 12, rating_value = 200 \<rparr>,
          \<lparr> rating_id = 23, rating_user = 8, rating_place = 12, rating_value = 500 \<rparr>,
          \<lparr> rating_id = 24, rating_user = 8, rating_place = 15, rating_value = 100 \<rparr>] \<rparr>"

definition example_data :: filter_data where
  "example_data =
     \<lparr> apply_filters = True, split_categories = False, latitude = Float 0,
       longitude = Float 0,
       distance = None, categories = None, rating = None, ordering = None \<rparr>"

text \<open>Twelve places of the category city and three of the category art.\<close>

definition crowded :: "place list" where
  "crowded =
     map (\<lambda>i. example_place i 7 ''city'' (0, 0)) [20 ..< 32]
     @ map (\<lambda>i. example_place i 7 ''art'' (0, 0)) [40 ..< 43]"

text \<open>A request that turns the filters off, and one that names a category outside the enumeration.\<close>

definition example_request :: request_data where
  "example_request =
     \<lparr> req_apply_filters = Some False, req_split_categories = Some False,
       req_latitude = Some (Float 0), req_longitude = Some (Float 0), req_distance = None,
       req_categories = None, req_rating = None, req_ordering = None \<rparr>"

definition unlisted_category_request :: request_data where
  "unlisted_category_request =
     \<lparr> req_apply_filters = Some True, req_split_categories = Some False,
       req_latitude = Some (Float 0), req_longitude = Some (Float 0), req_distance = None,
       req_categories = Some [''notACategory''], req_rating = None, req_ordering = None \<rparr>"

section \<open>Properties of the secret store\<close>

lemma cache_get_delete_same: "cache_get (cache_delete c k) now k = None"
  by (simp add: cache_get_def cache_delete_def)

lemma cache_get_delete_other: "k' \<noteq> k \<Longrightarrow> cache_get (cache_delete c k) now k' = cache_get c now k'"
  by (simp add: cache_get_def cache_delete_def)

lemma cache_get_add_fresh:
  "cache_get c now k = None \<Longrightarrow> 0 < timeout \<Longrightarrow>
   cache_get (cache_add c now k v timeout) t k = (if t < now + timeout then Some v else None)"
  by (simp add: cache_get_def cache_add_def)

lemma cache_get_mono:
  "cache_get c t2 k = Some v \<Longrightarrow> t1 \<le> t2 \<Longrightarrow> cache_get c t1 k = Some v"
  by (auto simp: cache_get_def split: option.splits if_splits)

subsection \<open>Single use, idempotent issue, keys by email\<close>

text \<open>
  Claim C4. \<open>try_use_code\<close> (and likewise \<open>try_use_token\<close>) answers true exactly when
  the key of that email has a live entry whose stored value equals the candidate, and
  then the entry is deleted by the call; otherwise it answers false and leaves the store
  as it was. So after a successful use every later call, at any time and with any
  candidate, answers false until a new secret is issued: a code is consumed at most once.
\<close>

theorem try_use_single_use:
  "try_use_code now email code c =
     (if cache_get c now (email @ ''__code'') = Some code
      then (True, cache_delete c (email @ ''__code'')) else (False, c))
   \<and> try_use_token now email token c =
     (if cache_get c now (email @ ''__token'') = Some token
      then (True, cache_delete c (email @ ''__token'')) else (False, c))
   \<and> (fst (try_use_code now email code c) \<longrightarrow>
        \<not> fst (try_use_code now' email code' (snd (try_use_code now email code c))))
   \<and> (fst (try_use_token now email token c) \<longrightarrow>
        \<not> fst (try_use_token now' email token' (snd (try_use_token now email token c))))"
  by (simp add: try_use_code_def try_use_token_def cache_get_delete_same)

text \<open>
  The store holds the code 4821 until second 120. At second 10 the code is accepted and
  the store is left empty; the same code again is refused; a wrong code and a late code
  are refused and the store is left as it was.
\<close>

theorem try_use_single_use_witness:
  "fst (try_use_code 10 ''a@b.io'' ''4821'' [''a@b.io__code'' \<mapsto> (''4821'', 120)])
   \<and> snd (try_use_code 10 ''a@b.io'' ''4821'' [''a@b.io__code'' \<mapsto> (''4821'', 120)]) = Map.empty
   \<and> \<not> fst (try_use_code 11 ''a@b.io'' ''4821''
          (snd (try_use_code 10 ''a@b.io'' ''4821'' [''a@b.io__code'' \<mapsto> (''4821'', 120)])))
   \<and> try_use_code 10 ''a@b.io'' ''0000'' [''a@b.io__code'' \<mapsto> (''4821'', 120)]
       = (False, [''a@b.io__code'' \<mapsto> (''4821'', 120)])
   \<and> try_use_code 120 ''a@b.io'' ''4821'' [''a@b.io__code'' \<mapsto> (''4821'', 120)]
       = (False, [''a@b.io__code'' \<mapsto> (''4821'', 120)])"
proof -
  let ?c = "[''a@b.io__code'' \<mapsto> (''4821'', 120::real)]"
  have live: "cache_get ?c 10 (''a@b.io'' @ ''__code'') = Some ''4821''"
    by (simp add: cache_get_def)
  have other: "cache_get ?c 10 (''a@b.io'' @ ''__code'') \<noteq> Some ''0000''"
    by (simp add: cache_get_def)
  have late: "cache_get ?c 120 (''a@b.io'' @ ''__code'') \<noteq> Some ''4821''"
    by (simp add: cache_get_def)
  have del: "cache_delete ?c (''a@b.io'' @ ''__code'') = Map.empty"
    by (simp add: cache_delete_def)
  note inst = try_use_single_use [of 10 "''a@b.io''" "''4821''" ?c _ 11 "''4821''"]
  from inst live del
  have a: "try_use_code 10 ''a@b.io'' ''4821'' ?c = (True, Map.empty)"
    by simp
  from a inst
  have b: "\<not> fst (try_use_code 11 ''a@b.io'' ''4821'' (snd (try_use_code 10 ''a@b.io'' ''4821'' ?c)))"
    by (metis fst_conv)
  from try_use_single_use [of 10 "''a@b.io''" "''0000''" ?c] other
  have c: "try_use_code 10 ''a@b.io'' ''0000'' ?c = (False, ?c)" by simp
  from try_use_single_use [of 120 "''a@b.io''" "''4821''" ?c] late
  have d: "try_use_code 120 ''a@b.io'' ''4821'' ?c = (False, ?c)" by simp
  from a b c d show ?thesis by simp
qed

text \<open>
  Claim C5. Whatever a call of \<open>get_or_create_code\<close> returns is a code that is live in
  the store it leaves. A second call made while that entry is live returns the same code
  and leaves the store unchanged, whatever its own random draw. When the first call
  minted the code (no live entry before), the code is the draw of that call and the entry
  is live for the 120 seconds that follow; a call after them returns its own draw, which
  may differ.
\<close>

theorem issue_reset_code_idempotent:
  assumes first: "get_or_create_code t1 r1 email c = (res, c1)"
  shows "\<exists>code. res = Some code
           \<and> cache_get c1 t1 (email @ ''__code'') = Some code
           \<and> (\<forall>t2 r2. cache_get c1 t2 (email @ ''__code'') \<noteq> None \<longrightarrow>
                  get_or_create_code t2 r2 email c1 = (Some code, c1))
           \<and> (cache_get c t1 (email @ ''__code'') = None \<longrightarrow>
                  code = r1
                  \<and> (\<forall>t2 r2. t1 \<le> t2 \<and> t2 < t1 + 120 \<longrightarrow>
                         get_or_create_code t2 r2 email c1 = (Some r1, c1))
                  \<and> (\<forall>t2 r2. t1 + 120 \<le> t2 \<longrightarrow>
                         fst (get_or_create_code t2 r2 email c1) = Some r2))"
proof -
  let ?k = "email @ ''__code''"
  show ?thesis
  proof (cases "cache_get c t1 ?k")
    case None
    with first have c1: "c1 = c(?k \<mapsto> (r1, t1 + 120))" and res: "res = Some r1"
      by (auto simp: get_or_create_code_def cache_add_def cache_get_def reset_code_ttl_def Let_def)
    have get: "\<And>t. cache_get c1 t ?k = (if t < t1 + 120 then Some r1 else None)"
      by (simp add: c1 cache_get_def)
    have again: "\<And>t2 r2. cache_get c1 t2 ?k \<noteq> None \<Longrightarrow>
        get_or_create_code t2 r2 email c1 = (Some r1, c1)"
      by (auto simp: get_or_create_code_def get split: if_splits)
    have later: "\<And>t2 r2. t1 + 120 \<le> t2 \<Longrightarrow> fst (get_or_create_code t2 r2 email c1) = Some r2"
    proof -
      fix t2 r2 :: _
      assume late: "t1 + 120 \<le> t2"
      then have dead: "cache_get c1 t2 ?k = None" by (simp add: get)
      then have "cache_add c1 t2 ?k r2 reset_code_ttl = c1(?k \<mapsto> (r2, t2 + 120))"
        by (simp add: cache_add_def reset_code_ttl_def)
      moreover have "cache_get (c1(?k \<mapsto> (r2, t2 + 120))) t2 ?k = Some r2"
        by (simp add: cache_get_def)
      ultimately show "fst (get_or_create_code t2 r2 email c1) = Some r2"
        using dead by (simp add: get_or_create_code_def)
    qed
    from res get again later None show ?thesis by auto
  next
    case (Some code)
    with first have c1: "c1 = c" and res: "res = Some code"
      by (auto simp: get_or_create_code_def)
    have again: "\<And>t2 r2. cache_get c t2 ?k \<noteq> None \<Longrightarrow>
        get_or_create_code t2 r2 email c = (Some code, c)"
      using Some by (auto simp: get_or_create_code_def cache_get_def split: option.splits if_splits)
    from c1 res Some again show ?thesis by auto
  qed
qed

text \<open>
  On the empty store the call at second 0 mints 4821; the call at second 119 returns
  4821 although it drew 0000; the call at second 120 returns 0000.
\<close>

theorem issue_reset_code_idempotent_witness:
  "get_or_create_code 0 ''4821'' ''a@b.io'' Map.empty
     = (Some ''4821'', [''a@b.io__code'' \<mapsto> (''4821'', 120)])
   \<and> get_or_create_code 119 ''0000'' ''a@b.io'' [''a@b.io__code'' \<mapsto> (''4821'', 120)]
     = (Some ''4821'', [''a@b.io__code'' \<mapsto> (''4821'', 120)])
   \<and> fst (get_or_create_code 120 ''0000'' ''a@b.io'' [''a@b.io__code'' \<mapsto> (''4821'', 120)])
     = Some ''0000''
   \<and> is_reset_code ''4821''"
proof -
  let ?c1 = "[''a@b.io__code'' \<mapsto> (''4821'', 120::real)]"
  have absent: "cache_get Map.empty 0 (''a@b.io'' @ ''__code'') = None"
    by (simp add: cache_get_def)
  have first: "get_or_create_code 0 ''4821'' ''a@b.io'' Map.empty = (Some ''4821'', ?c1)"
    by (simp add: get_or_create_code_def cache_add_def cache_get_def reset_code_ttl_def)
  from issue_reset_code_idempotent [OF first] absent
  have within: "\<forall>t2 r2. 0 \<le> t2 \<and> t2 < 0 + 120 \<longrightarrow>
                  get_or_create_code t2 r2 ''a@b.io'' ?c1 = (Some ''4821'', ?c1)"
    and after: "\<forall>t2 r2. 0 + 120 \<le> t2 \<longrightarrow>
                  fst (get_or_create_code t2 r2 ''a@b.io'' ?c1) = Some r2"
    by auto
  from within have "get_or_create_code 119 ''0000'' ''a@b.io'' ?c1 = (Some ''4821'', ?c1)"
    by simp
  moreover from after have "fst (get_or_create_code 120 ''0000'' ''a@b.io'' ?c1) = Some ''0000''"
    by simp
  ultimately show ?thesis using first by (simp add: is_reset_code_def)
qed

text \<open>
  Claim C9, as amended. For distinct emails A and B, using a token under B is decided by
  the entry under B's own key and by nothing else: it succeeds exactly when B has a live
  entry equal to the candidate, the entry under A's key plays no part in the answer and is
  left as it was. So the token issued to A fails under B whenever B has no live token or
  B's token differs from it; where B's own live token equals the candidate, the call
  succeeds and deletes B's entry.
\<close>

theorem try_use_token_keyed_by_email:
  assumes "a \<noteq> b"
  shows "(fst (try_use_token now b t c) \<longleftrightarrow> cache_get c now (b @ ''__token'') = Some t)
         \<and> fst (try_use_token now b t (c(a @ ''__token'' := e))) = fst (try_use_token now b t c)
         \<and> snd (try_use_token now b t c) (a @ ''__token'') = c (a @ ''__token'')
         \<and> (cache_get c now (b @ ''__token'') \<noteq> Some t \<longrightarrow>
               try_use_token now b t c = (False, c))
         \<and> (cache_get c now (b @ ''__token'') = Some t \<longrightarrow>
               try_use_token now b t c = (True, cache_delete c (b @ ''__token'')))"
  using assms by (auto simp: try_use_token_def cache_get_def cache_delete_def Let_def)

text \<open>
  A's token is refused under B when B has no entry, and when B's entry holds another
  token.
\<close>

theorem try_use_token_keyed_by_email_witness:
  "\<not> fst (try_use_token 1 ''b@x.io'' ''abcdefghijklmnopqrstuvwxyz012345''
         [''a@x.io__token'' \<mapsto> (''abcdefghijklmnopqrstuvwxyz012345'', 600)])
   \<and> \<not> fst (try_use_token 1 ''b@x.io'' ''abcdefghijklmnopqrstuvwxyz012345''
         [''a@x.io__token'' \<mapsto> (''abcdefghijklmnopqrstuvwxyz012345'', 600),
          ''b@x.io__token'' \<mapsto> (''ABCDEFGHIJKLMNOPQRSTUVWXYZ987654'', 600)])"
proof -
  have ne: "''a@x.io'' \<noteq> ''b@x.io''" by simp
  let ?t = "''abcdefghijklmnopqrstuvwxyz012345''"
  let ?c1 = "[''a@x.io__token'' \<mapsto> (?t, 600::real)]"
  let ?c2 = "[''a@x.io__token'' \<mapsto> (?t, 600::real),
              ''b@x.io__token'' \<mapsto> (''ABCDEFGHIJKLMNOPQRSTUVWXYZ987654'', 600)]"
  have n1: "cache_get ?c1 1 (''b@x.io'' @ ''__token'') \<noteq> Some ?t"
    by (simp add: cache_get_def)
  have n2: "cache_get ?c2 1 (''b@x.io'' @ ''__token'') \<noteq> Some ?t"
    by (simp add: cache_get_def)
  from try_use_token_keyed_by_email [OF ne, of 1 ?t ?c1] n1
  have "\<not> fst (try_use_token 1 ''b@x.io'' ?t ?c1)" by blast
  moreover from try_use_token_keyed_by_email [OF ne, of 1 ?t ?c2] n2
  have "\<not> fst (try_use_token 1 ''b@x.io'' ?t ?c2)" by blast
  ultimately show ?thesis by simp
qed

text \<open>
  The claim as stated fails where the two stored secrets are textually equal: both
  emails are issued a token from the same draw, and A's token string is then accepted
  under B.
\<close>

theorem cross_email_token_counterexample:
  "''a@x.io'' \<noteq> ''b@x.io''
   \<and> get_or_create_token 0 ''abcdefghijklmnopqrstuvwxyz012345'' ''a@x.io'' Map.empty
       = (Some ''abcdefghijklmnopqrstuvwxyz012345'',
          [''a@x.io__token'' \<mapsto> (''abcdefghijklmnopqrstuvwxyz012345'', 600)])
   \<and> get_or_create_token 0 ''abcdefghijklmnopqrstuvwxyz012345'' ''b@x.io''
         [''a@x.io__token'' \<mapsto> (''abcdefghijklmnopqrstuvwxyz012345'', 600)]
       = (Some ''abcdefghijklmnopqrstuvwxyz012345'',
          [''a@x.io__token'' \<mapsto> (''abcdefghijklmnopqrstuvwxyz012345'', 600),
           ''b@x.io__token'' \<mapsto> (''abcdefghijklmnopqrstuvwxyz012345'', 600)])
   \<and> fst (try_use_token 1 ''b@x.io'' ''abcdefghijklmnopqrstuvwxyz012345''
         [''a@x.io__token'' \<mapsto> (''abcdefghijklmnopqrstuvwxyz012345'', 600),
          ''b@x.io__token'' \<mapsto> (''abcdefghijklmnopqrstuvwxyz012345'', 600)])"
  by (simp add: get_or_create_token_def try_use_token_def cache_add_def cache_get_def
      cache_delete_def session_token_ttl_def)

section \<open>Properties of the filter engine\<close>

lemma user_places_owner: "p \<in> set (user_places db user) \<Longrightarrow> added_by p = user"
  by (simp add: user_places_def)

lemma base_queryset_subset: "set (base_queryset geo db user data) \<subseteq> set (user_places db user)"
  by (auto simp: base_queryset_def)

lemma distance_category_filter_subset: "set (distance_category_filter geo data qs) \<subseteq> set qs"
  by (auto simp: distance_category_filter_def)

lemma set_place_ids_to_exclude:
  "set (place_ids_to_exclude db r qs) = place_id ` {p \<in> set qs. author_rating_below db r p}"
  by (induction qs) auto

lemma author_rating_below_same_id:
  "place_id p = place_id q \<Longrightarrow> added_by p = added_by q \<Longrightarrow>
   author_rating_below db r p = author_rating_below db r q"
  by (simp add: author_rating_below_def ratings_from_author_def)

lemma exclude_ids_one_owner:
  assumes "\<forall>p \<in> set qs. added_by p = user"
  shows "exclude_ids (place_ids_to_exclude db r qs) qs
           = filter (\<lambda>p. \<not> author_rating_below db r p) qs"
proof -
  have "place_id p \<notin> set (place_ids_to_exclude db r qs) \<longleftrightarrow> \<not> author_rating_below db r p"
    if "p \<in> set qs" for p
  proof
    assume "place_id p \<notin> set (place_ids_to_exclude db r qs)"
    with that show "\<not> author_rating_below db r p"
      by (auto simp: set_place_ids_to_exclude)
  next
    assume no: "\<not> author_rating_below db r p"
    show "place_id p \<notin> set (place_ids_to_exclude db r qs)"
    proof
      assume "place_id p \<in> set (place_ids_to_exclude db r qs)"
      then obtain q where q: "q \<in> set qs" "author_rating_below db r q" "place_id p = place_id q"
        by (auto simp: set_place_ids_to_exclude)
      with assms that have "added_by p = added_by q" by simp
      with q no show False using author_rating_below_same_id by blast
    qed
  qed
  then show ?thesis
    unfolding exclude_ids_def by (intro filter_cong) auto
qed

lemma order_by_set: "order_by field ord key qs = Inr res \<Longrightarrow> set res = set qs"
  by (auto simp: order_by_def split: if_splits)

lemma annotate_rating_fst: "annotate_rating db user qs = Inr ann \<Longrightarrow> map fst ann = qs"
  by (induction qs arbitrary: ann) (auto split: sum.splits)

lemma apply_ordering_set:
  assumes "apply_ordering geo db user data qs = Inr res"
  shows "set res = set qs"
proof -
  let ?ord = "case ordering data of None \<Rightarrow> [] | Some s \<Rightarrow> s"
  consider (d) "py_in ''distance'' ?ord"
    | (r) "\<not> py_in ''distance'' ?ord" "py_in ''rating'' ?ord"
    | (n) "\<not> py_in ''distance'' ?ord" "\<not> py_in ''rating'' ?ord"
    by blast
  then show ?thesis
  proof cases
    case d
    with assms show ?thesis by (auto simp: apply_ordering_def dest: order_by_set)
  next
    case r
    with assms obtain ann sorted_rows where
      ann: "annotate_rating db user qs = Inr ann"
      and srt: "order_by ''rating'' ?ord (\<lambda>pa. nulls_last (snd pa)) ann = Inr sorted_rows"
      and res: "res = map fst sorted_rows"
      by (auto simp: apply_ordering_def split: sum.splits)
    from srt have "set sorted_rows = set ann" by (rule order_by_set)
    then have "set res = set (map fst ann)" using res by simp
    with ann show ?thesis by (simp add: annotate_rating_fst)
  next
    case n
    with assms show ?thesis by (simp add: apply_ordering_def)
  qed
qed

lemma filtered_result_set:
  assumes "get_filters_applied_queryset geo db user data = Inr result" "apply_filters data"
  shows "set result =
           set (rating_exclusion db data
                  (distance_category_filter geo data (base_queryset geo db user data)))"
  using assms by (auto simp: get_filters_applied_queryset_def Let_def dest: apply_ordering_set)

lemma rating_exclusion_subset: "set (rating_exclusion db data qs) \<subseteq> set qs"
  by (auto simp: rating_exclusion_def exclude_ids_def split: option.splits)

subsection \<open>The example, evaluated\<close>

lemmas example_places_defs =
  gallery_def studio_def square_def suburb_def museum_def example_place_def

lemma example_user_places:
  "user_places example_db 7 = [gallery, studio, square, suburb]"
  by (simp add: user_places_def example_db_def example_places_defs)

lemma example_base:
  "apply_filters data \<Longrightarrow> current_point data = (Float 0, Float 0) \<Longrightarrow>
   base_queryset example_geo example_db 7 data = [gallery, studio, square, suburb]"
  by (simp add: base_queryset_def example_user_places)
     (simp add: example_geo_def taxicab_def coord_def example_places_defs)

lemma example_bounded:
  "apply_filters data \<Longrightarrow> current_point data = (Float 0, Float 0) \<Longrightarrow> distance data = None \<Longrightarrow>
   categories data = None \<Longrightarrow>
   distance_category_filter example_geo data (base_queryset example_geo example_db 7 data)
     = [gallery, studio, square]"
  by (simp add: example_base distance_category_filter_def dist_of_def)
     (simp add: example_geo_def taxicab_def coord_def example_places_defs)

lemma example_authors:
  "ratings_from_author example_db gallery
     = [\<lparr> rating_id = 21, rating_user = 7, rating_place = 11, rating_value = 450 \<rparr>]"
  "ratings_from_author example_db studio
     = [\<lparr> rating_id = 22, rating_user = 7, rating_place = 12, rating_value = 200 \<rparr>]"
  "ratings_from_author example_db square = []"
  by (simp_all add: ratings_from_author_def example_db_def example_places_defs)

lemma example_distinct:
  "gallery \<noteq> studio" "gallery \<noteq> square" "studio \<noteq> square" "studio \<noteq> gallery"
  "square \<noteq> gallery" "square \<noteq> studio"
  by (simp_all add: example_places_defs)

lemma example_ids:
  "place_id gallery = 11" "place_id studio = 12" "place_id square = 13"
  by (simp_all add: example_places_defs)

lemma example_result_plain:
  "get_filters_applied_queryset example_geo example_db 7 example_data
     = Inr [gallery, studio, square]"
proof -
  have "distance_category_filter example_geo example_data
          (base_queryset example_geo example_db 7 example_data) = [gallery, studio, square]"
    by (rule example_bounded) (simp_all add: example_data_def current_point_def)
  then show ?thesis
    by (simp add: get_filters_applied_queryset_def rating_exclusion_def apply_ordering_def
        example_data_def)
qed

lemma example_result_rating_other:
  "get_filters_applied_queryset example_geo example_db 8 (example_data\<lparr>rating := Some 300\<rparr>)
     = Inr []"
proof -
  let ?data = "example_data\<lparr>rating := Some 300\<rparr>"
  have "distance_category_filter example_geo ?data
          (base_queryset example_geo example_db 8 ?data) = [museum]"
    by (simp add: distance_category_filter_def base_queryset_def user_places_def dist_of_def
        current_point_def example_db_def example_data_def example_geo_def taxicab_def coord_def
        example_places_defs)
  moreover have "rating_exclusion example_db ?data [museum] = []"
    by (simp add: rating_exclusion_def exclude_ids_def author_rating_below_def
        ratings_from_author_def example_db_def example_data_def example_places_defs)
  ultimately show ?thesis
    by (simp add: get_filters_applied_queryset_def apply_ordering_def example_data_def)
qed

lemma example_result_rating:
  "get_filters_applied_queryset example_geo example_db 7 (example_data\<lparr>rating := Some 300\<rparr>)
     = Inr [gallery, square]"
proof -
  let ?data = "example_data\<lparr>rating := Some 300\<rparr>"
  have "distance_category_filter example_geo ?data
          (base_queryset example_geo example_db 7 ?data) = [gallery, studio, square]"
    by (rule example_bounded) (simp_all add: example_data_def current_point_def)
  moreover have "rating_exclusion example_db ?data [gallery, studio, square] = [gallery, square]"
    by (simp add: rating_exclusion_def exclude_ids_def author_rating_below_def example_authors
        example_ids example_data_def)
  ultimately show ?thesis
    by (simp add: get_filters_applied_queryset_def apply_ordering_def example_data_def)
qed

section \<open>Properties of validation\<close>

lemma field_errors_Inr [simp]: "field_errors n (Inr v) = []"
  by (simp add: field_errors_def)

lemma field_errors_Inl [simp]: "field_errors n (Inl msg) = [(n, msg)]"
  by (simp add: field_errors_def)

lemma is_valid_Inr_iff:
  "is_valid req = Inr data \<longleftrightarrow>
     field_apply_filters (req_apply_filters req) = Inr (apply_filters data)
     \<and> field_split_categories (req_split_categories req) = Inr (split_categories data)
     \<and> field_latitude (req_latitude req) = Inr (latitude data)
     \<and> field_longitude (req_longitude req) = Inr (longitude data)
     \<and> field_distance (req_distance req) = Inr (distance data)
     \<and> field_categories (req_categories req) = Inr (categories data)
     \<and> field_rating (req_rating req) = Inr (rating data)
     \<and> field_ordering (req_ordering req) = Inr (ordering data)"
  unfolding is_valid_def Let_def
  by (cases data) (auto split: sum.splits)

lemma is_valid_Inl:
  assumes "is_valid req = Inl errors"
  shows "errors =
           field_errors ''apply_filters'' (field_apply_filters (req_apply_filters req))
           @ field_errors ''split_categories'' (field_split_categories (req_split_categories req))
           @ field_errors ''latitude'' (field_latitude (req_latitude req))
           @ field_errors ''longitude'' (field_longitude (req_longitude req))
           @ field_errors ''distance'' (field_distance (req_distance req))
           @ field_errors ''categories'' (field_categories (req_categories req))
           @ field_errors ''rating'' (field_rating (req_rating req))
           @ field_errors ''ordering'' (field_ordering (req_ordering req))"
  using assms unfolding is_valid_def Let_def
  by (simp split: sum.splits)

lemma is_valid_field_fails:
  assumes "field_latitude (req_latitude req) = Inl m
           \<or> field_longitude (req_longitude req) = Inl m
           \<or> field_categories (req_categories req) = Inl m"
  shows "\<exists>errors. is_valid req = Inl errors"
proof (cases "is_valid req")
  case (Inl errors)
  then show ?thesis by blast
next
  case (Inr data)
  with assms show ?thesis by (auto simp: is_valid_Inr_iff)
qed

lemma field_latitude_Inr_iff:
  "field_latitude raw = Inr v \<longleftrightarrow>
     raw = Some v \<and> \<not> float_less v (- 90) \<and> \<not> float_greater v 90"
  by (auto simp: field_latitude_def required_field_def run_validator_def validate_latitude_def
      split: option.splits if_splits)

lemma field_longitude_Inr_iff:
  "field_longitude raw = Inr v \<longleftrightarrow>
     raw = Some v \<and> \<not> float_less v (- 180) \<and> \<not> float_greater v 180"
  by (auto simp: field_longitude_def required_field_def run_validator_def validate_longitude_def
      split: option.splits if_splits)

lemmas field_defs =
  field_apply_filters_def field_split_categories_def field_latitude_def field_longitude_def
  field_distance_def field_rating_def field_ordering_def
  required_field_def optional_field_def run_validator_def
  validate_latitude_def validate_longitude_def

lemma char_field_Inr_iff:
  "char_field n raw = Inr v \<longleftrightarrow>
     v = strip raw \<and> strip raw \<noteq> [] \<and> length (strip raw) \<le> n \<and> CHR 0x00 \<notin> set (strip raw)"
  by (auto simp: char_field_def Let_def)

lemma run_child_validation_char_field:
  "run_child_validation (char_field n) cs = Inr vs \<longleftrightarrow>
     vs = map strip cs
     \<and> (\<forall>c \<in> set cs. strip c \<noteq> [] \<and> length (strip c) \<le> n \<and> CHR 0x00 \<notin> set (strip c))"
proof (induction cs arbitrary: vs)
  case Nil
  show ?case by auto
next
  case (Cons c cs)
  show ?case
  proof (cases "char_field n c")
    case (Inl msg)
    then have "\<not> (strip c \<noteq> [] \<and> length (strip c) \<le> n \<and> CHR 0x00 \<notin> set (strip c))"
      using char_field_Inr_iff [of n c "strip c"] by auto
    with Inl show ?thesis by auto
  next
    case (Inr v)
    then have v: "v = strip c" "strip c \<noteq> []" "length (strip c) \<le> n" "CHR 0x00 \<notin> set (strip c)"
      by (simp_all add: char_field_Inr_iff)
    show ?thesis
    proof (cases "run_child_validation (char_field n) cs")
      case (Inl msg)
      with Cons.IH [of "map strip cs"] Inr v show ?thesis by auto
    next
      case r: (Inr rest)
      with Cons.IH [of rest] Inr v show ?thesis by auto
    qed
  qed
qed

lemma field_categories_Some:
  "field_categories (Some cs) = Inr v \<longleftrightarrow>
     v = Some (map strip cs)
     \<and> (\<forall>c \<in> set cs. strip c \<noteq> [] \<and> length (strip c) \<le> 50 \<and> CHR 0x00 \<notin> set (strip c))"
proof (cases "run_child_validation (char_field 50) cs")
  case (Inl msg)
  then have "\<not> (\<forall>c \<in> set cs. strip c \<noteq> [] \<and> length (strip c) \<le> 50 \<and> CHR 0x00 \<notin> set (strip c))"
    using run_child_validation_char_field [of 50 cs "map strip cs"] by auto
  with Inl show ?thesis by (auto simp: field_categories_def optional_field_def)
next
  case (Inr vs)
  then show ?thesis
    using run_child_validation_char_field [of 50 cs vs]
    by (auto simp: field_categories_def optional_field_def)
qed

lemma field_categories_None: "field_categories None = Inr None"
  by (simp add: field_categories_def optional_field_def)

lemma strip_Cons_whitespace: "is_whitespace ch \<Longrightarrow> strip (ch # s) = strip s"
  by (simp add: strip_def)

lemma strip_clean:
  assumes "s \<noteq> []" "\<not> is_whitespace (hd s)" "\<not> is_whitespace (last s)"
  shows "strip s = s"
proof -
  from assms(1,2) have a: "dropWhile is_whitespace s = s"
    by (cases s) simp_all
  from assms(1,3) have "dropWhile is_whitespace (rev s) = rev s"
    by (cases "rev s") (simp_all add: hd_rev)
  with a show ?thesis by (simp add: strip_def)
qed

lemma dropWhile_rev_nonempty: "dropWhile P (rev xs) \<noteq> [] \<Longrightarrow> xs \<noteq> []"
  by (cases xs) simp_all

lemma strip_spec:
  "\<exists>l r. c = l @ strip c @ r
     \<and> (\<forall>ch \<in> set l. is_whitespace ch) \<and> (\<forall>ch \<in> set r. is_whitespace ch)
     \<and> (strip c \<noteq> [] \<longrightarrow> \<not> is_whitespace (hd (strip c)) \<and> \<not> is_whitespace (last (strip c)))"
proof -
  let ?a = "dropWhile is_whitespace c"
  let ?b = "dropWhile is_whitespace (rev ?a)"
  let ?l = "takeWhile is_whitespace c"
  let ?r = "rev (takeWhile is_whitespace (rev ?a))"
  have s: "strip c = rev ?b" by (simp add: strip_def)
  have "rev ?b @ ?r = rev (takeWhile is_whitespace (rev ?a) @ ?b)"
    by (simp only: rev_append)
  also have "\<dots> = rev (rev ?a)"
    by (simp only: takeWhile_dropWhile_id)
  finally have a: "?a = rev ?b @ ?r" by simp
  have "c = ?l @ ?a" by simp
  with a have c: "c = ?l @ strip c @ ?r" by (simp add: s)
  have l: "\<forall>ch \<in> set ?l. is_whitespace ch" by (auto dest: set_takeWhileD)
  have r: "\<forall>ch \<in> set ?r. is_whitespace ch" by (auto dest: set_takeWhileD)
  have e: "\<not> is_whitespace (hd (strip c)) \<and> \<not> is_whitespace (last (strip c))"
    if ne: "strip c \<noteq> []"
  proof
    from ne have bne: "?b \<noteq> []" by (simp add: s)
    then have "\<not> is_whitespace (hd ?b)" by (rule hd_dropWhile)
    then show "\<not> is_whitespace (last (strip c))" using bne by (simp add: s last_rev)
    from bne have ane: "?a \<noteq> []" by (rule dropWhile_rev_nonempty)
    then have h: "\<not> is_whitespace (hd ?a)" by (rule hd_dropWhile)
    from ne have nb: "rev ?b \<noteq> []" unfolding s .
    have "hd (rev ?b @ ?r) = hd (rev ?b)" using nb by (rule hd_append2)
    with a have "hd ?a = hd (rev ?b)" by metis
    then have "hd ?a = hd (strip c)" by (simp only: s)
    with h show "\<not> is_whitespace (hd (strip c))" by simp
  qed
  from c l r e show ?thesis by blast
qed

lemma strip_nbsp_examples:
  "strip [CHR 0xA0] = []"
  "strip [CHR 0x85, CHR 0x09] = []"
  "strip (CHR 0xA0 # replicate 50 CHR ''a'') = replicate 50 CHR ''a''"
proof -
  show "strip [CHR 0xA0] = []" "strip [CHR 0x85, CHR 0x09] = []"
    by (simp_all add: strip_def is_whitespace_def)
  have "strip (CHR 0xA0 # replicate 50 CHR ''a'') = strip (replicate 50 CHR ''a'')"
    by (rule strip_Cons_whitespace) (simp add: is_whitespace_def)
  also have "\<dots> = replicate 50 CHR ''a''"
    by (rule strip_clean) (simp_all add: is_whitespace_def last_replicate)
  finally show "strip (CHR 0xA0 # replicate 50 CHR ''a'') = replicate 50 CHR ''a''" .
qed

lemma char_field_too_long_message:
  "char_field 50 (replicate 51 CHR ''a'')
     = Inl ''Ensure this field has no more than 50 characters.''"
proof -
  have "str_nat 50 = ''50''"
    by (simp add: str_nat.simps [of 50] str_nat.simps [of 5])
  moreover have "strip (replicate 51 CHR ''a'') = replicate 51 CHR ''a''"
    by (rule strip_clean) (simp_all add: is_whitespace_def last_replicate)
  ultimately show ?thesis by (simp add: char_field_def)
qed

lemma strip_examples:
  "strip ''notACategory'' = ''notACategory''"
  "strip '' art '' = ''art''"
  by (simp_all add: strip_def is_whitespace_def)

lemma example_request_valid:
  "is_valid (example_request\<lparr>req_split_categories := Some s\<rparr>)
     = Inr (example_data\<lparr>apply_filters := False, split_categories := s\<rparr>)"
  by (simp add: is_valid_Inr_iff example_request_def example_data_def field_defs
      field_categories_None)

subsection \<open>Coordinates and categories\<close>

text \<open>
  What the coordinate fields do refuse, whatever \<open>apply_filters\<close> says: a missing
  coordinate, every number outside the range and both infinities. The view then answers
  with the validation error without computing a queryset. A coordinate of valid data is
  a number in range or NaN.
\<close>

lemma coordinates_numbers_validated:
  "(is_valid req = Inr data \<longrightarrow>
      req_latitude req = Some (latitude data) \<and> req_longitude req = Some (longitude data)
      \<and> (latitude data = NaN \<or> (\<exists>x. latitude data = Float x \<and> - 90 \<le> x \<and> x \<le> 90))
      \<and> (longitude data = NaN \<or> (\<exists>x. longitude data = Float x \<and> - 180 \<le> x \<and> x \<le> 180)))
   \<and> (req_latitude req = None \<or> req_longitude req = None
       \<or> (\<exists>x. req_latitude req = Some (Float x) \<and> (x < - 90 \<or> 90 < x))
       \<or> (\<exists>x. req_longitude req = Some (Float x) \<and> (x < - 180 \<or> 180 < x))
       \<or> req_latitude req = Some PosInf \<or> req_latitude req = Some NegInf
       \<or> req_longitude req = Some PosInf \<or> req_longitude req = Some NegInf \<longrightarrow>
       (\<exists>errors. is_valid req = Inl errors
          \<and> post geo search db user req = ValidationFailed errors
          \<and> (\<exists>m. (''latitude'', m) \<in> set errors \<or> (''longitude'', m) \<in> set errors)))"
proof (rule conjI; rule impI)
  assume v: "is_valid req = Inr data"
  have la: "latitude data = NaN \<or> (\<exists>x. latitude data = Float x \<and> - 90 \<le> x \<and> x \<le> 90)"
    if "\<not> float_less (latitude data) (- 90)" "\<not> float_greater (latitude data) 90"
    using that by (cases "latitude data") auto
  have lo: "longitude data = NaN \<or> (\<exists>x. longitude data = Float x \<and> - 180 \<le> x \<and> x \<le> 180)"
    if "\<not> float_less (longitude data) (- 180)" "\<not> float_greater (longitude data) 180"
    using that by (cases "longitude data") auto
  from v la lo
  show "req_latitude req = Some (latitude data) \<and> req_longitude req = Some (longitude data)
      \<and> (latitude data = NaN \<or> (\<exists>x. latitude data = Float x \<and> - 90 \<le> x \<and> x \<le> 90))
      \<and> (longitude data = NaN \<or> (\<exists>x. longitude data = Float x \<and> - 180 \<le> x \<and> x \<le> 180))"
    by (simp add: is_valid_Inr_iff field_latitude_Inr_iff field_longitude_Inr_iff)
next
  assume bad: "req_latitude req = None \<or> req_longitude req = None
       \<or> (\<exists>x. req_latitude req = Some (Float x) \<and> (x < - 90 \<or> 90 < x))
       \<or> (\<exists>x. req_longitude req = Some (Float x) \<and> (x < - 180 \<or> 180 < x))
       \<or> req_latitude req = Some PosInf \<or> req_latitude req = Some NegInf
       \<or> req_longitude req = Some PosInf \<or> req_longitude req = Some NegInf"
  then have "(\<forall>v. field_latitude (req_latitude req) \<noteq> Inr v)
             \<or> (\<forall>v. field_longitude (req_longitude req) \<noteq> Inr v)"
    by (auto simp: field_latitude_Inr_iff field_longitude_Inr_iff)
  then obtain m where m: "field_latitude (req_latitude req) = Inl m
                          \<or> field_longitude (req_longitude req) = Inl m"
    by (metis sum.exhaust)
  then obtain errors where e: "is_valid req = Inl errors"
    using is_valid_field_fails by blast
  from is_valid_Inl [OF e] m
  have "(''latitude'', m) \<in> set errors \<or> (''longitude'', m) \<in> set errors"
    by auto
  with e show "\<exists>errors. is_valid req = Inl errors
          \<and> post geo search db user req = ValidationFailed errors
          \<and> (\<exists>m. (''latitude'', m) \<in> set errors \<or> (''longitude'', m) \<in> set errors)"
    by (auto simp: post_def)
qed

lemma coordinates_numbers_validated_example:
  "post example_geo (\<lambda>p. True) example_db 7 (example_request\<lparr>req_latitude := Some (Float 91)\<rparr>)
     = ValidationFailed [(''latitude'', ''Latitude is supposed to be between -90 and 90.'')]
   \<and> post example_geo (\<lambda>p. True) example_db 7 (example_request\<lparr>req_longitude := None\<rparr>)
     = ValidationFailed [(''longitude'', ''This field is required.'')]"
  by (simp add: post_def is_valid_def example_request_def field_apply_filters_def
      field_split_categories_def field_latitude_def field_longitude_def field_distance_def
      field_categories_def field_rating_def field_ordering_def required_field_def
      optional_field_def run_validator_def validate_latitude_def validate_longitude_def)

text \<open>
  Claim C10: every call requires latitude and longitude to be present and in range, also
  with \<open>apply_filters\<close> off; a request with a coordinate out of range is refused before
  any result is computed. The code breaks this at the float NaN, which a
  \<^verbatim>\<open>FloatField\<close> reads from the string \<^verbatim>\<open>"nan"\<close>: \<^verbatim>\<open>value < -90 or value > 90\<close> is
  false for it, both validators pass, the request is valid with a latitude that is not
  in [-90, 90], and the view answers 200 with the user's places.
\<close>

theorem nan_latitude_accepted:
  "validate_latitude NaN = Passes
   \<and> validate_longitude NaN = Passes
   \<and> is_valid (example_request\<lparr>req_latitude := Some NaN\<rparr>)
       = Inr (example_data\<lparr>apply_filters := False, latitude := NaN\<rparr>)
   \<and> post example_geo (\<lambda>p. True) example_db 7 (example_request\<lparr>req_latitude := Some NaN\<rparr>)
       = Response200 [''filters_applied'' \<mapsto> JBool False, ''is_split'' \<mapsto> JBool False,
                      ''places'' \<mapsto> JPlaces [gallery, studio, square, suburb]]"
proof -
  have v: "is_valid (example_request\<lparr>req_latitude := Some NaN\<rparr>)
       = Inr (example_data\<lparr>apply_filters := False, latitude := NaN\<rparr>)"
    by (simp add: is_valid_Inr_iff example_request_def example_data_def field_defs
        field_categories_None)
  have q: "get_filters_applied_queryset example_geo example_db 7
             (example_data\<lparr>apply_filters := False, latitude := NaN\<rparr>)
           = Inr [gallery, studio, square, suburb]"
    by (simp add: get_filters_applied_queryset_def base_queryset_def example_user_places)
  from v q show ?thesis
    by (simp add: post_def validate_latitude_def validate_longitude_def example_data_def)
qed

text \<open>
  Claim C6, as amended. Each member of \<open>categories\<close> is validated as a
  \<^verbatim>\<open>CharField(max_length=50)\<close> before the engine runs. The member is first trimmed
  of the whitespace around it (\<open>strip\<close>: what is cut off on either side is whitespace,
  what is left neither starts nor ends with whitespace). A request with a member whose
  trimmed value is empty or longer than 50 characters gets a validation error under
  \<open>categories\<close> and the view answers with it; valid data holds the trimmed members. The
  enumeration of \<open>validate_category\<close> plays no part: when the rest of the request is
  valid, every list of members whose trimmed values are non-empty, at most 50 characters
  long and free of NUL is accepted.
\<close>

theorem categories_validated_as_strings:
  assumes "req_categories req = Some cs"
  shows "((\<exists>c \<in> set cs. strip c = [] \<or> 50 < length (strip c)) \<longrightarrow>
            (\<exists>errors m. is_valid req = Inl errors \<and> (''categories'', m) \<in> set errors
               \<and> post geo search db user req = ValidationFailed errors))
         \<and> (is_valid req = Inr data \<longrightarrow>
              categories data = Some (map strip cs)
              \<and> (\<forall>c \<in> set cs. strip c \<noteq> [] \<and> length (strip c) \<le> 50))
         \<and> ((\<exists>d. is_valid (req\<lparr>req_categories := None\<rparr>) = Inr d)
             \<and> (\<forall>c \<in> set cs. strip c \<noteq> [] \<and> length (strip c) \<le> 50
                               \<and> CHR 0x00 \<notin> set (strip c)) \<longrightarrow>
              (\<exists>data. is_valid req = Inr data \<and> categories data = Some (map strip cs)))
         \<and> (\<forall>c \<in> set cs. \<exists>l r. c = l @ strip c @ r
               \<and> (\<forall>ch \<in> set l. is_whitespace ch) \<and> (\<forall>ch \<in> set r. is_whitespace ch)
               \<and> (strip c \<noteq> [] \<longrightarrow>
                     \<not> is_whitespace (hd (strip c)) \<and> \<not> is_whitespace (last (strip c))))
         \<and> (\<forall>ch. is_whitespace ch \<longleftrightarrow>
               ch \<in> {CHR 0x09, CHR 0x0A, CHR 0x0B, CHR 0x0C, CHR 0x0D, CHR 0x1C, CHR 0x1D,
                      CHR 0x1E, CHR 0x1F, CHR 0x20, CHR 0x85, CHR 0xA0})"
proof -
  have reject: "\<exists>errors m. is_valid req = Inl errors \<and> (''categories'', m) \<in> set errors
               \<and> post geo search db user req = ValidationFailed errors"
    if "\<exists>c \<in> set cs. strip c = [] \<or> 50 < length (strip c)"
  proof -
    from that obtain c where "c \<in> set cs" "strip c = [] \<or> 50 < length (strip c)"
      by blast
    then have "\<not> (\<forall>c \<in> set cs. strip c \<noteq> [] \<and> length (strip c) \<le> 50
                                 \<and> CHR 0x00 \<notin> set (strip c))"
      using leD by blast
    then have "\<forall>v. field_categories (Some cs) \<noteq> Inr v"
      by (simp add: field_categories_Some)
    then obtain m where m: "field_categories (req_categories req) = Inl m"
      using assms by (metis sum.exhaust)
    then obtain errors where e: "is_valid req = Inl errors"
      using is_valid_field_fails by blast
    from is_valid_Inl [OF e] m have "(''categories'', m) \<in> set errors" by auto
    with e show ?thesis by (auto simp: post_def)
  qed
  have accept: "categories data = Some (map strip cs)
              \<and> (\<forall>c \<in> set cs. strip c \<noteq> [] \<and> length (strip c) \<le> 50)"
    if "is_valid req = Inr data"
  proof -
    from that assms have "field_categories (Some cs) = Inr (categories data)"
      by (simp add: is_valid_Inr_iff)
    then show ?thesis by (auto simp: field_categories_Some)
  qed
  have free: "\<exists>data. is_valid req = Inr data \<and> categories data = Some (map strip cs)"
    if "is_valid (req\<lparr>req_categories := None\<rparr>) = Inr d"
      and "\<forall>c \<in> set cs. strip c \<noteq> [] \<and> length (strip c) \<le> 50 \<and> CHR 0x00 \<notin> set (strip c)"
    for d
  proof -
    from that(2) have "field_categories (req_categories req) = Inr (Some (map strip cs))"
      using assms by (simp add: field_categories_Some)
    with that(1) have "is_valid req = Inr (d\<lparr>categories := Some (map strip cs)\<rparr>)"
      by (simp add: is_valid_Inr_iff)
    then show ?thesis by auto
  qed
  have trimmed: "\<forall>c \<in> set cs. \<exists>l r. c = l @ strip c @ r
               \<and> (\<forall>ch \<in> set l. is_whitespace ch) \<and> (\<forall>ch \<in> set r. is_whitespace ch)
               \<and> (strip c \<noteq> [] \<longrightarrow>
                     \<not> is_whitespace (hd (strip c)) \<and> \<not> is_whitespace (last (strip c)))"
    using strip_spec by blast
  have spaces: "\<forall>ch. is_whitespace ch \<longleftrightarrow>
               ch \<in> {CHR 0x09, CHR 0x0A, CHR 0x0B, CHR 0x0C, CHR 0x0D, CHR 0x1C, CHR 0x1D,
                      CHR 0x1E, CHR 0x1F, CHR 0x20, CHR 0x85, CHR 0xA0}"
    by (auto simp: is_whitespace_def)
  have first: "(\<exists>c \<in> set cs. strip c = [] \<or> 50 < length (strip c)) \<longrightarrow>
            (\<exists>errors m. is_valid req = Inl errors \<and> (''categories'', m) \<in> set errors
               \<and> post geo search db user req = ValidationFailed errors)"
    using reject by blast
  have second: "is_valid req = Inr data \<longrightarrow>
              categories data = Some (map strip cs)
              \<and> (\<forall>c \<in> set cs. strip c \<noteq> [] \<and> length (strip c) \<le> 50)"
    using accept by blast
  have third: "(\<exists>d. is_valid (req\<lparr>req_categories := None\<rparr>) = Inr d)
             \<and> (\<forall>c \<in> set cs. strip c \<noteq> [] \<and> length (strip c) \<le> 50
                               \<and> CHR 0x00 \<notin> set (strip c)) \<longrightarrow>
              (\<exists>data. is_valid req = Inr data \<and> categories data = Some (map strip cs))"
    using free by blast
  from first second third trimmed spaces show ?thesis by (intro conjI)
qed

text \<open>
  A member outside the enumeration is accepted beside a trimmed one; a member of 51
  characters is refused; a member that is one no-break space is refused as blank; a
  no-break space before 50 letters is trimmed and the member accepted.
\<close>

theorem categories_validated_as_strings_witness:
  "(\<exists>data. is_valid (example_request\<lparr>req_categories := Some ['' art '', ''notACategory'']\<rparr>)
             = Inr data
      \<and> categories data = Some [''art'', ''notACategory''])
   \<and> (\<exists>errors m. is_valid (example_request\<lparr>req_categories := Some [replicate 51 CHR ''a'']\<rparr>)
             = Inl errors
      \<and> (''categories'', m) \<in> set errors
      \<and> post example_geo (\<lambda>p. True) example_db 7
           (example_request\<lparr>req_categories := Some [replicate 51 CHR ''a'']\<rparr>)
         = ValidationFailed errors)
   \<and> (\<exists>errors m. is_valid (example_request\<lparr>req_categories := Some [[CHR 0xA0]]\<rparr>)
             = Inl errors
      \<and> (''categories'', m) \<in> set errors)
   \<and> (\<exists>data. is_valid (example_request
                  \<lparr>req_categories := Some [CHR 0xA0 # replicate 50 CHR ''a'']\<rparr>) = Inr data
      \<and> categories data = Some [replicate 50 CHR ''a''])"
proof -
  let ?ok = "example_request\<lparr>req_categories := Some ['' art '', ''notACategory'']\<rparr>"
  let ?long = "example_request\<lparr>req_categories := Some [replicate 51 CHR ''a'']\<rparr>"
  let ?blank = "example_request\<lparr>req_categories := Some [[CHR 0xA0]]\<rparr>"
  let ?nbsp = "example_request\<lparr>req_categories := Some [CHR 0xA0 # replicate 50 CHR ''a'']\<rparr>"
  have base: "\<exists>d. is_valid (example_request\<lparr>req_categories := None\<rparr>) = Inr d"
    by (simp add: is_valid_Inr_iff example_request_def field_defs field_categories_None)
       (metis filter_data.select_convs)
  have fine: "\<forall>c \<in> set ['' art '', ''notACategory''].
      strip c \<noteq> [] \<and> length (strip c) \<le> 50 \<and> CHR 0x00 \<notin> set (strip c)"
    by (simp add: strip_examples)
  have c1: "req_categories ?ok = Some ['' art '', ''notACategory'']" by simp
  have b1: "\<exists>d. is_valid (?ok\<lparr>req_categories := None\<rparr>) = Inr d" using base by simp
  from categories_validated_as_strings [OF c1, THEN conjunct2, THEN conjunct2, THEN conjunct1]
    b1 fine
  have a: "\<exists>data. is_valid ?ok = Inr data
      \<and> categories data = Some (map strip ['' art '', ''notACategory''])"
    by blast
  have "strip (replicate 51 CHR ''a'') = replicate 51 CHR ''a''"
    by (rule strip_clean) (simp_all add: is_whitespace_def last_replicate)
  then have long: "\<exists>c \<in> set [replicate 51 CHR ''a'']. strip c = [] \<or> 50 < length (strip c)"
    by simp
  have c2: "req_categories ?long = Some [replicate 51 CHR ''a'']" by simp
  from categories_validated_as_strings
    [OF c2, of example_geo "\<lambda>p. True" example_db 7, THEN conjunct1] long
  have b: "\<exists>errors m. is_valid ?long = Inl errors \<and> (''categories'', m) \<in> set errors
      \<and> post example_geo (\<lambda>p. True) example_db 7 ?long = ValidationFailed errors"
    by blast
  have blank: "\<exists>c \<in> set [[CHR 0xA0]]. strip c = [] \<or> 50 < length (strip c)"
    by (simp add: strip_nbsp_examples)
  have c3: "req_categories ?blank = Some [[CHR 0xA0]]" by simp
  from categories_validated_as_strings
    [OF c3, of example_geo "\<lambda>p. True" example_db 7, THEN conjunct1] blank
  have c: "\<exists>errors m. is_valid ?blank = Inl errors \<and> (''categories'', m) \<in> set errors"
    by blast
  have fine4: "\<forall>c \<in> set [CHR 0xA0 # replicate 50 CHR ''a''].
      strip c \<noteq> [] \<and> length (strip c) \<le> 50 \<and> CHR 0x00 \<notin> set (strip c)"
    by (simp add: strip_nbsp_examples)
  have c4: "req_categories ?nbsp = Some [CHR 0xA0 # replicate 50 CHR ''a'']" by simp
  have b4: "\<exists>d. is_valid (?nbsp\<lparr>req_categories := None\<rparr>) = Inr d" using base by simp
  from categories_validated_as_strings [OF c4, THEN conjunct2, THEN conjunct2, THEN conjunct1]
    b4 fine4
  have d: "\<exists>data. is_valid ?nbsp = Inr data
      \<and> categories data = Some (map strip [CHR 0xA0 # replicate 50 CHR ''a''])"
    by blast
  from a have a': "\<exists>data. is_valid ?ok = Inr data
      \<and> categories data = Some [''art'', ''notACategory'']"
    by (simp add: strip_examples)
  from d have d': "\<exists>data. is_valid ?nbsp = Inr data
      \<and> categories data = Some [replicate 50 CHR ''a'']"
    by (simp add: strip_nbsp_examples)
  from a' b c d' show ?thesis by (intro conjI)
qed

text \<open>
  The claim as stated fails: the category \<open>notACategory\<close> is outside the enumeration,
  the request is valid, and the view runs the engine and answers 200 with no places.
\<close>

theorem categories_enumeration_counterexample:
  "req_categories unlisted_category_request = Some [''notACategory'']
   \<and> ''notACategory'' \<notin> set allowed_categories
   \<and> validate_category ''notACategory'' = Raises ''Unallowed category.''
   \<and> is_valid unlisted_category_request
       = Inr \<lparr> apply_filters = True, split_categories = False, latitude = Float 0,
               longitude = Float 0,
               distance = None, categories = Some [''notACategory''], rating = None,
               ordering = None \<rparr>
   \<and> post example_geo (\<lambda>p. True) example_db 7 unlisted_category_request
       = Response200 [''filters_applied'' \<mapsto> JBool True, ''is_split'' \<mapsto> JBool False,
                      ''places'' \<mapsto> JPlaces []]"
proof -
  let ?data = "\<lparr> apply_filters = True, split_categories = False, latitude = Float 0,
               longitude = Float 0,
                 distance = None, categories = Some [''notACategory''], rating = None,
                 ordering = None \<rparr>"
  have notin: "''notACategory'' \<notin> set allowed_categories"
    by (simp add: allowed_categories_def)
  have v: "is_valid unlisted_category_request = Inr ?data"
    by (simp add: is_valid_Inr_iff unlisted_category_request_def field_defs
        field_categories_Some strip_examples)
  have "base_queryset example_geo example_db 7 ?data = [gallery, studio, square, suburb]"
    by (rule example_base) (simp_all add: current_point_def)
  then have "distance_category_filter example_geo ?data
               (base_queryset example_geo example_db 7 ?data) = []"
    by (simp add: distance_category_filter_def example_places_defs)
  then have q: "get_filters_applied_queryset example_geo example_db 7 ?data = Inr []"
    by (simp add: get_filters_applied_queryset_def rating_exclusion_def apply_ordering_def)
  from notin v q show ?thesis
    by (simp add: post_def validate_category_def unlisted_category_request_def)
qed

section \<open>Claims about the filter engine\<close>

subsection \<open>Distance bound, rating threshold, unfiltered listing\<close>

text \<open>
  Claim C3. Every place that \<open>get_filters_applied_queryset\<close> returns with
  \<open>apply_filters\<close> on lies within the kilometre bound of the query point: the given
  \<open>distance\<close>, or 5 when none is given. The bound is the backend's own distance, the one
  \<^verbatim>\<open>location__distance_lte\<close> compares. The 0.05 degree prefilter only narrows the
  candidates (every returned place passes it too, belongs to the user and is a row of the
  table); it admits nothing past the kilometre bound.
\<close>

theorem distance_bound:
  assumes "get_filters_applied_queryset geo db user data = Inr result"
    and "apply_filters data"
  shows "\<forall>p \<in> set result.
           distance_km geo (location p) (longitude data, latitude data)
             \<le> (case distance data of Some d \<Rightarrow> d | None \<Rightarrow> 5)
           \<and> dwithin geo (location p) (longitude data, latitude data) (5 / 100)
           \<and> added_by p = user \<and> p \<in> set (places db)"
proof
  fix p assume "p \<in> set result"
  with assms have "p \<in> set (rating_exclusion db data
      (distance_category_filter geo data (base_queryset geo db user data)))"
    by (simp add: filtered_result_set)
  then have "p \<in> set (distance_category_filter geo data (base_queryset geo db user data))"
    using rating_exclusion_subset by blast
  with assms(2) show "distance_km geo (location p) (longitude data, latitude data)
             \<le> (case distance data of Some d \<Rightarrow> d | None \<Rightarrow> 5)
           \<and> dwithin geo (location p) (longitude data, latitude data) (5 / 100)
           \<and> added_by p = user \<and> p \<in> set (places db)"
    by (auto simp: distance_category_filter_def base_queryset_def user_places_def
        dist_of_def current_point_def)
qed

text \<open>
  With no distance given, the three places within 5 km are returned; \<open>suburb\<close> passes the
  0.05 degree prefilter, lies 8.88 km away, and is not returned.
\<close>

theorem distance_bound_witness:
  "get_filters_applied_queryset example_geo example_db 7 example_data
     = Inr [gallery, studio, square]
   \<and> distance_km example_geo (location square) (Float 0, Float 0) \<le> 5
   \<and> suburb \<in> set (base_queryset example_geo example_db 7 example_data)
   \<and> \<not> distance_km example_geo (location suburb) (Float 0, Float 0) \<le> 5"
proof -
  have ap: "apply_filters example_data" by (simp add: example_data_def)
  have mem: "square \<in> set [gallery, studio, square]" by simp
  from distance_bound [OF example_result_plain ap] mem
  have "distance_km example_geo (location square)
          (longitude example_data, latitude example_data)
        \<le> (case distance example_data of Some d \<Rightarrow> d | None \<Rightarrow> 5)"
    by blast
  then have a: "distance_km example_geo (location square) (Float 0, Float 0) \<le> 5"
    by (simp add: example_data_def)
  have "base_queryset example_geo example_db 7 example_data = [gallery, studio, square, suburb]"
    by (rule example_base) (simp_all add: example_data_def current_point_def)
  then have b: "suburb \<in> set (base_queryset example_geo example_db 7 example_data)"
    by simp
  have c: "\<not> distance_km example_geo (location suburb) (Float 0, Float 0) \<le> 5"
    by (simp add: example_geo_def taxicab_def coord_def example_places_defs)
  from example_result_plain a b c show ?thesis by simp
qed

text \<open>
  Claim C1. With \<open>apply_filters\<close> on and \<open>rating = r\<close>, every returned place has no
  rating record by its owner (\<open>added_by\<close>), or the owner's rating on it (the first such
  record) is at least \<open>r\<close>. The returned places are exactly the user's places that pass
  the prefilter, the distance bound and the category restriction and whose owner has not
  rated them below \<open>r\<close>: such a place is dropped exactly when an owner rating exists and
  is strictly below \<open>r\<close>, and a place without an owner rating is never dropped. The older
  \<^verbatim>\<open>PlaceFilterSerializer\<close> holds the same block of code.
\<close>

theorem rating_threshold_filter:
  assumes "get_filters_applied_queryset geo db user data = Inr result"
    and "apply_filters data"
    and "rating data = Some r"
  shows "(\<forall>p \<in> set result.
            filter (\<lambda>x. rating_place x = place_id p \<and> rating_user x = added_by p)
              (place_ratings db) = []
            \<or> r \<le> rating_value
                   (hd (filter (\<lambda>x. rating_place x = place_id p \<and> rating_user x = added_by p)
                          (place_ratings db))))
         \<and> set result =
             {p \<in> set (places db).
                added_by p = user
                \<and> dwithin geo (location p) (longitude data, latitude data) (5 / 100)
                \<and> distance_km geo (location p) (longitude data, latitude data)
                     \<le> (case distance data of Some d \<Rightarrow> d | None \<Rightarrow> 5)
                \<and> (case categories data of None \<Rightarrow> True | Some cs \<Rightarrow> category p \<in> set cs)
                \<and> \<not> (filter (\<lambda>x. rating_place x = place_id p \<and> rating_user x = added_by p)
                         (place_ratings db) \<noteq> []
                       \<and> rating_value
                           (hd (filter (\<lambda>x. rating_place x = place_id p \<and> rating_user x = added_by p)
                                  (place_ratings db))) < r)}
         \<and> (\<forall>p \<in> set (places db).
               added_by p = user
               \<and> dwithin geo (location p) (longitude data, latitude data) (5 / 100)
               \<and> distance_km geo (location p) (longitude data, latitude data)
                    \<le> (case distance data of Some d \<Rightarrow> d | None \<Rightarrow> 5)
               \<and> (case categories data of None \<Rightarrow> True | Some cs \<Rightarrow> category p \<in> set cs)
               \<longrightarrow>
               (p \<notin> set result \<longleftrightarrow>
                  filter (\<lambda>x. rating_place x = place_id p \<and> rating_user x = added_by p)
                    (place_ratings db) \<noteq> []
                  \<and> rating_value
                      (hd (filter (\<lambda>x. rating_place x = place_id p \<and> rating_user x = added_by p)
                             (place_ratings db))) < r))"
proof -
  let ?qs = "distance_category_filter geo data (base_queryset geo db user data)"
  let ?own = "\<lambda>p. filter (\<lambda>x. rating_place x = place_id p \<and> rating_user x = added_by p)
                     (place_ratings db)"
  have owner: "\<forall>p \<in> set ?qs. added_by p = user"
    using distance_category_filter_subset base_queryset_subset user_places_owner by blast
  have below: "author_rating_below db r p \<longleftrightarrow> ?own p \<noteq> [] \<and> rating_value (hd (?own p)) < r"
    for p
    by (cases "?own p") (simp_all add: author_rating_below_def ratings_from_author_def)
  have cand: "set ?qs =
      {p \<in> set (places db).
         added_by p = user
         \<and> dwithin geo (location p) (longitude data, latitude data) (5 / 100)
         \<and> distance_km geo (location p) (longitude data, latitude data)
              \<le> (case distance data of Some d \<Rightarrow> d | None \<Rightarrow> 5)
         \<and> (case categories data of None \<Rightarrow> True | Some cs \<Rightarrow> category p \<in> set cs)}"
    using assms(2)
    by (auto simp: distance_category_filter_def base_queryset_def user_places_def
        dist_of_def current_point_def)
  from assms have "set result = set (filter (\<lambda>p. \<not> author_rating_below db r p) ?qs)"
    by (simp add: filtered_result_set rating_exclusion_def exclude_ids_one_owner [OF owner])
  then have res: "set result = {p \<in> set ?qs. \<not> (?own p \<noteq> [] \<and> rating_value (hd (?own p)) < r)}"
    by (auto simp: below)
  have one: "\<forall>p \<in> set result. ?own p = [] \<or> r \<le> rating_value (hd (?own p))"
    unfolding res by auto
  have two: "set result =
      {p \<in> set (places db).
         added_by p = user
         \<and> dwithin geo (location p) (longitude data, latitude data) (5 / 100)
         \<and> distance_km geo (location p) (longitude data, latitude data)
              \<le> (case distance data of Some d \<Rightarrow> d | None \<Rightarrow> 5)
         \<and> (case categories data of None \<Rightarrow> True | Some cs \<Rightarrow> category p \<in> set cs)
         \<and> \<not> (?own p \<noteq> [] \<and> rating_value (hd (?own p)) < r)}"
    unfolding res cand by blast
  have three: "\<forall>p \<in> set (places db).
         added_by p = user
         \<and> dwithin geo (location p) (longitude data, latitude data) (5 / 100)
         \<and> distance_km geo (location p) (longitude data, latitude data)
              \<le> (case distance data of Some d \<Rightarrow> d | None \<Rightarrow> 5)
         \<and> (case categories data of None \<Rightarrow> True | Some cs \<Rightarrow> category p \<in> set cs)
         \<longrightarrow> (p \<notin> set result \<longleftrightarrow> ?own p \<noteq> [] \<and> rating_value (hd (?own p)) < r)"
    unfolding two by blast
  from one two three show ?thesis by (intro conjI)
qed

text \<open>
  Threshold 3.00. For user 7, \<open>gallery\<close> (owner rating 4.50) and \<open>square\<close> (no owner
  rating) are returned and \<open>studio\<close> (owner rating 2.00, rated 5.00 by another user) is
  dropped. For user 8, \<open>museum\<close> (owner rating 1.00) is dropped.
\<close>

theorem rating_threshold_filter_witness:
  "get_filters_applied_queryset example_geo example_db 7 (example_data\<lparr>rating := Some 300\<rparr>)
     = Inr [gallery, square]
   \<and> 300 \<le> rating_value
        (hd (filter (\<lambda>x. rating_place x = place_id gallery \<and> rating_user x = added_by gallery)
               (place_ratings example_db)))
   \<and> filter (\<lambda>x. rating_place x = place_id square \<and> rating_user x = added_by square)
        (place_ratings example_db) = []
   \<and> rating_value
        (hd (filter (\<lambda>x. rating_place x = place_id studio \<and> rating_user x = added_by studio)
               (place_ratings example_db))) < 300
   \<and> get_filters_applied_queryset example_geo example_db 8 (example_data\<lparr>rating := Some 300\<rparr>)
     = Inr []
   \<and> rating_value
        (hd (filter (\<lambda>x. rating_place x = place_id museum \<and> rating_user x = added_by museum)
               (place_ratings example_db))) < 300"
proof -
  let ?data = "example_data\<lparr>rating := Some 300\<rparr>"
  let ?own = "\<lambda>p. filter (\<lambda>x. rating_place x = place_id p \<and> rating_user x = added_by p)
                     (place_ratings example_db)"
  have ap: "apply_filters ?data" and ra: "rating ?data = Some 300"
    by (simp_all add: example_data_def)
  have pt: "longitude ?data = Float 0" "latitude ?data = Float 0" "distance ?data = None"
    "categories ?data = None"
    by (simp_all add: example_data_def)
  note inst7 = rating_threshold_filter [OF example_result_rating ap ra]
  have m1: "gallery \<in> set [gallery, square]" by simp
  have ne1: "?own gallery \<noteq> []"
    using example_authors(1) by (simp add: ratings_from_author_def)
  from inst7 m1 ne1 have a: "300 \<le> rating_value (hd (?own gallery))"
    by blast
  have sq: "?own square = []"
    using example_authors(3) by (simp add: ratings_from_author_def)
  have cand2: "studio \<in> set (places example_db) \<and> added_by studio = 7
      \<and> dwithin example_geo (location studio) (longitude ?data, latitude ?data) (5 / 100)
      \<and> distance_km example_geo (location studio) (longitude ?data, latitude ?data)
           \<le> (case distance ?data of Some d \<Rightarrow> d | None \<Rightarrow> 5)
      \<and> (case categories ?data of None \<Rightarrow> True | Some cs \<Rightarrow> category studio \<in> set cs)"
    unfolding pt
    by (simp add: example_db_def example_geo_def taxicab_def coord_def studio_def
        example_place_def)
  have out2: "studio \<notin> set [gallery, square]"
    by (simp add: example_distinct)
  from inst7 cand2 out2 have b: "rating_value (hd (?own studio)) < 300"
    by blast
  have r8: "get_filters_applied_queryset example_geo example_db 8 ?data = Inr []"
    by (rule example_result_rating_other)
  note inst8 = rating_threshold_filter [OF r8 ap ra]
  have cand8: "museum \<in> set (places example_db) \<and> added_by museum = 8
      \<and> dwithin example_geo (location museum) (longitude ?data, latitude ?data) (5 / 100)
      \<and> distance_km example_geo (location museum) (longitude ?data, latitude ?data)
           \<le> (case distance ?data of Some d \<Rightarrow> d | None \<Rightarrow> 5)
      \<and> (case categories ?data of None \<Rightarrow> True | Some cs \<Rightarrow> category museum \<in> set cs)"
    unfolding pt
    by (simp add: example_db_def example_geo_def taxicab_def coord_def museum_def
        example_place_def)
  have out8: "museum \<notin> set []" by simp
  from inst8 cand8 out8 have c: "rating_value (hd (?own museum)) < 300"
    by blast
  from example_result_rating r8 a sq b c show ?thesis by simp
qed

text \<open>
  Claim C7. With \<open>apply_filters\<close> off the queryset is exactly the places whose owner
  (\<open>added_by\<close>) is the user, in table order, whatever the coordinates, distance,
  categories, rating and ordering are; and with \<open>split_categories\<close> off too (and no
  search term) the view answers with exactly that list.
\<close>

theorem unfiltered_returns_all_user_places:
  assumes "\<not> apply_filters data"
  shows "get_filters_applied_queryset geo db user data
           = Inr (filter (\<lambda>p. added_by p = user) (places db))
         \<and> (\<forall>result. get_filters_applied_queryset geo db user data = Inr result \<longrightarrow>
               set result = {p \<in> set (places db). added_by p = user})
         \<and> get_filters_applied_queryset geo db user
             (data\<lparr>latitude := la, longitude := lo, distance := d, categories := cs,
                    rating := r, ordering := ord, split_categories := s\<rparr>)
           = get_filters_applied_queryset geo db user data
         \<and> (is_valid req = Inr data \<and> \<not> split_categories data \<longrightarrow>
              post geo (\<lambda>p. True) db user req
                = Response200 [''filters_applied'' \<mapsto> JBool False, ''is_split'' \<mapsto> JBool False,
                               ''places'' \<mapsto> JPlaces (filter (\<lambda>p. added_by p = user) (places db))])"
  using assms
  by (auto simp: get_filters_applied_queryset_def base_queryset_def user_places_def post_def)

text \<open>
  All four places of user 7 come back, the far one included, though the data asks for
  1 km, the category art, rating 5.00 and an ordering, and the view lists them; user 8
  gets its one place.
\<close>

theorem unfiltered_returns_all_user_places_witness:
  "get_filters_applied_queryset example_geo example_db 7
     (example_data\<lparr>apply_filters := False, distance := Some 1, categories := Some [''art''],
                    rating := Some 500, ordering := Some ''-rating''\<rparr>)
   = Inr [gallery, studio, square, suburb]
   \<and> get_filters_applied_queryset example_geo example_db 8
       (example_data\<lparr>apply_filters := False\<rparr>) = Inr [museum]
   \<and> post example_geo (\<lambda>p. True) example_db 7
       (example_request\<lparr>req_split_categories := Some False\<rparr>)
     = Response200 [''filters_applied'' \<mapsto> JBool False, ''is_split'' \<mapsto> JBool False,
                    ''places'' \<mapsto> JPlaces [gallery, studio, square, suburb]]"
proof -
  have f7: "filter (\<lambda>p. added_by p = 7) (places example_db) = [gallery, studio, square, suburb]"
    using example_user_places by (simp add: user_places_def)
  have f8: "filter (\<lambda>p. added_by p = 8) (places example_db) = [museum]"
    by (simp add: example_db_def example_places_defs)
  have off: "\<not> apply_filters (example_data\<lparr>apply_filters := False, distance := Some 1,
          categories := Some [''art''], rating := Some 500, ordering := Some ''-rating''\<rparr>)"
    by simp
  have "get_filters_applied_queryset example_geo example_db 7
     (example_data\<lparr>apply_filters := False, distance := Some 1, categories := Some [''art''],
                    rating := Some 500, ordering := Some ''-rating''\<rparr>)
     = Inr (filter (\<lambda>p. added_by p = 7) (places example_db))"
    by (rule unfiltered_returns_all_user_places [OF off, THEN conjunct1])
  then have a: "get_filters_applied_queryset example_geo example_db 7
     (example_data\<lparr>apply_filters := False, distance := Some 1, categories := Some [''art''],
                    rating := Some 500, ordering := Some ''-rating''\<rparr>)
     = Inr [gallery, studio, square, suburb]"
    by (simp only: f7)
  have off8: "\<not> apply_filters (example_data\<lparr>apply_filters := False\<rparr>)" by simp
  have "get_filters_applied_queryset example_geo example_db 8
          (example_data\<lparr>apply_filters := False\<rparr>)
        = Inr (filter (\<lambda>p. added_by p = 8) (places example_db))"
    by (rule unfiltered_returns_all_user_places [OF off8, THEN conjunct1])
  then have b: "get_filters_applied_queryset example_geo example_db 8
          (example_data\<lparr>apply_filters := False\<rparr>) = Inr [museum]"
    by (simp only: f8)
  let ?data = "example_data\<lparr>apply_filters := False, split_categories := False\<rparr>"
  let ?req = "example_request\<lparr>req_split_categories := Some False\<rparr>"
  have off2: "\<not> apply_filters ?data" and flat: "\<not> split_categories ?data" by simp_all
  have v: "is_valid ?req = Inr ?data" by (rule example_request_valid)
  have "is_valid ?req = Inr ?data \<and> \<not> split_categories ?data \<longrightarrow>
          post example_geo (\<lambda>p. True) example_db 7 ?req
            = Response200 [''filters_applied'' \<mapsto> JBool False, ''is_split'' \<mapsto> JBool False,
                           ''places'' \<mapsto> JPlaces (filter (\<lambda>p. added_by p = 7) (places example_db))]"
    by (rule unfiltered_returns_all_user_places
        [OF off2, THEN conjunct2, THEN conjunct2, THEN conjunct2])
  with v flat have c: "post example_geo (\<lambda>p. True) example_db 7 ?req
            = Response200 [''filters_applied'' \<mapsto> JBool False, ''is_split'' \<mapsto> JBool False,
                           ''places'' \<mapsto> JPlaces [gallery, studio, square, suburb]]"
    by (simp only: f7 simp_thms)
  from a b c show ?thesis by (intro conjI)
qed

section \<open>Properties of the rating aggregate\<close>

lemma get_rating_subquery:
  "get_rating db user p = (case rating_subquery db user p of [] \<Rightarrow> 0 | v # _ \<Rightarrow> v)"
proof -
  have "filter (\<lambda>r. rating_place r = place_id p \<and> rating_user r = user) (place_ratings db)
        = filter (\<lambda>r. rating_user r = user \<and> rating_place r = place_id p) (place_ratings db)"
    by (rule filter_cong) auto
  then show ?thesis
    by (simp add: get_rating_def rating_subquery_def split: list.splits)
qed

text \<open>
  Claim C2, as amended. When the requesting user has no rating record on the place, the
  aggregate that rating-based ordering sorts by is NULL (\<open>None\<close>), not 0; the value 0 is
  what \<open>get_rating\<close>, the rating shown with a place, returns then. With exactly one
  record both give that record's value.
\<close>

theorem rating_aggregate_zero_or_one:
  "(rating_subquery db user p = [] \<longrightarrow>
      rating_annotation db user p = Inr None \<and> get_rating db user p = 0)
   \<and> (rating_subquery db user p = [v] \<longrightarrow>
      rating_annotation db user p = Inr (Some (real_of_int v / 100))
      \<and> get_rating db user p = v)"
  by (simp add: rating_annotation_def scalar_subquery_def Avg_def List.map_filter_simps
      decimal_to_float_def get_rating_subquery)

text \<open>
  User 7 has no rating on \<open>square\<close> and the rating 4.50 on \<open>gallery\<close>.
\<close>

theorem rating_aggregate_zero_or_one_witness:
  "rating_subquery example_db 7 square = []
   \<and> rating_annotation example_db 7 square = Inr None
   \<and> get_rating example_db 7 square = 0
   \<and> rating_subquery example_db 7 gallery = [450]
   \<and> rating_annotation example_db 7 gallery = Inr (Some (9 / 2))
   \<and> get_rating example_db 7 gallery = 450"
proof -
  have z: "rating_subquery example_db 7 square = []"
    by (simp add: rating_subquery_def example_db_def square_def example_place_def)
  have o: "rating_subquery example_db 7 gallery = [450]"
    by (simp add: rating_subquery_def example_db_def gallery_def example_place_def)
  from rating_aggregate_zero_or_one [of example_db 7 square] z
  have a: "rating_annotation example_db 7 square = Inr None \<and> get_rating example_db 7 square = 0"
    by blast
  from rating_aggregate_zero_or_one [of example_db 7 gallery 450] o
  have b: "rating_annotation example_db 7 gallery = Inr (Some (real_of_int 450 / 100))
           \<and> get_rating example_db 7 gallery = 450"
    by blast
  from z o a b show ?thesis by simp
qed

text \<open>
  The claim as stated fails on a place the user has not rated: the ordering aggregate is
  not 0 there.
\<close>

theorem rating_aggregate_default_counterexample:
  "rating_subquery example_db 7 square = []
   \<and> rating_annotation example_db 7 square \<noteq> Inr (Some 0)"
  by (simp add: rating_annotation_def scalar_subquery_def Avg_def List.map_filter_simps
      rating_subquery_def example_db_def square_def example_place_def)

section \<open>Properties of the split by category\<close>

lemma dict_of_fold:
  "fold (\<lambda>kv m. m(fst kv \<mapsto> snd kv)) kvs m0 = m0 ++ map_of (rev kvs)"
  by (induction kvs arbitrary: m0) (auto simp: map_add_def fun_eq_iff split: option.splits)

lemma dict_of_keyed:
  "dict_of (map (\<lambda>k. (k, f k)) ks) = (\<lambda>k. if k \<in> set ks then Some (f k) else None)"
proof -
  have "dict_of (map (\<lambda>k. (k, f k)) ks) = map_of (map (\<lambda>k. (k, f k)) (rev ks))"
    by (simp add: dict_of_def dict_of_fold rev_map)
  also have "\<dots> = (Some \<circ> f) |` set (rev ks)"
    by (rule map_of_map_restrict)
  finally show ?thesis
    by (auto simp: restrict_map_def fun_eq_iff)
qed

lemma category_counts_nonzero:
  "filter (\<lambda>item. snd item \<noteq> 0) (category_counts qs) = category_counts qs"
proof -
  have "filter (\<lambda>p. category p = c) qs \<noteq> []" if "c \<in> set (map category qs)" for c
    using that by (auto simp: filter_empty_conv)
  then show ?thesis
    by (auto simp: category_counts_def filter_id_conv)
qed

lemma split_by_categories_eq:
  "split_by_categories qs c =
     (if c \<in> category ` set qs then Some (take 10 (filter (\<lambda>p. category p = c) qs)) else None)"
proof -
  have "map (\<lambda>item. (fst item, take 10 (filter (\<lambda>p. category p = fst item) qs)))
          (category_counts qs)
        = map (\<lambda>k. (k, take 10 (filter (\<lambda>p. category p = k) qs))) (remdups (map category qs))"
    by (simp add: category_counts_def)
  then show ?thesis
    unfolding split_by_categories_def category_counts_nonzero
    by (simp add: dict_of_keyed)
qed

lemma crowded_city: "length (filter (\<lambda>p. category p = ''city'') crowded) = 12"
  by (simp add: crowded_def example_place_def)

lemma crowded_art: "length (filter (\<lambda>p. category p = ''art'') crowded) = 3"
  by (simp add: crowded_def example_place_def)

lemma crowded_categories: "category ` set crowded = {''city'', ''art''}"
  by (auto simp: crowded_def example_place_def)

text \<open>
  Claim C8. The mapping built in split mode has a key exactly for the categories that
  have a place in the queryset; the list under a key is the first ten places of that
  category, so it is not empty, every place in it has that category, and it has
  \<open>min 10 n\<close> entries where \<open>n\<close> places match (12 matching places give 10). In the
  response of the view, the lists of places are exactly these buckets.
\<close>

theorem split_buckets:
  "dom (split_by_categories qs) = category ` set qs
   \<and> (\<forall>c ps. split_by_categories qs c = Some ps \<longrightarrow>
          ps = take 10 (filter (\<lambda>p. category p = c) qs)
          \<and> ps \<noteq> [] \<and> length ps \<le> 10
          \<and> length ps = min 10 (length (filter (\<lambda>p. category p = c) qs))
          \<and> (\<forall>p \<in> set ps. category p = c \<and> p \<in> set qs))
   \<and> (is_valid req = Inr data \<and> split_categories data
        \<and> get_filters_applied_queryset geo db user data = Inr qs0 \<longrightarrow>
        (\<exists>body. post geo search db user req = Response200 body
           \<and> (\<forall>k ps. body k = Some (JPlaces ps) \<longleftrightarrow>
                  split_by_categories (filter search qs0) k = Some ps)))"
proof (intro conjI allI impI)
  show "dom (split_by_categories qs) = category ` set qs"
    by (auto simp: split_by_categories_eq dom_def)
next
  fix c ps
  assume b: "split_by_categories qs c = Some ps"
  then have c: "c \<in> category ` set qs" and ps: "ps = take 10 (filter (\<lambda>p. category p = c) qs)"
    by (auto simp: split_by_categories_eq split: if_splits)
  from c have ne: "filter (\<lambda>p. category p = c) qs \<noteq> []"
    by (auto simp: filter_empty_conv)
  show "ps = take 10 (filter (\<lambda>p. category p = c) qs)" by (rule ps)
  show "ps \<noteq> []" using ne ps by simp
  show "length ps \<le> 10" using ps by simp
  show "length ps = min 10 (length (filter (\<lambda>p. category p = c) qs))"
    using ps by (simp add: min.commute)
  show "\<forall>p \<in> set ps. category p = c \<and> p \<in> set qs"
    using ps by (auto dest: in_set_takeD)
next
  assume a: "is_valid req = Inr data \<and> split_categories data
        \<and> get_filters_applied_queryset geo db user data = Inr qs0"
  let ?flags = "[''filters_applied'' \<mapsto> JBool (apply_filters data),
                 ''is_split'' \<mapsto> JBool (split_categories data)]"
  let ?buckets = "\<lambda>k. map_option JPlaces (split_by_categories (filter search qs0) k)"
  from a have p: "post geo search db user req = Response200 (?flags ++ ?buckets)"
    by (simp add: post_def)
  have "(?flags ++ ?buckets) k = Some (JPlaces ps)
          \<longleftrightarrow> split_by_categories (filter search qs0) k = Some ps" for k ps
    by (cases "split_by_categories (filter search qs0) k") (auto simp: map_add_def)
  with p show "\<exists>body. post geo search db user req = Response200 body
           \<and> (\<forall>k ps. body k = Some (JPlaces ps) \<longleftrightarrow>
                  split_by_categories (filter search qs0) k = Some ps)"
    by blast
qed

text \<open>
  Twelve city places give a bucket of ten, three art places a bucket of three, and
  sport has no key. For user 7 the view answers with the art and the city bucket.
\<close>

theorem split_buckets_witness:
  "(\<exists>ps. split_by_categories crowded ''city'' = Some ps \<and> length ps = 10)
   \<and> (\<exists>ps. split_by_categories crowded ''art'' = Some ps \<and> length ps = 3)
   \<and> split_by_categories crowded ''sport'' = None
   \<and> (\<exists>body. post example_geo (\<lambda>p. True) example_db 7
                 (example_request\<lparr>req_split_categories := Some True\<rparr>) = Response200 body
         \<and> body ''art'' = Some (JPlaces [gallery, studio])
         \<and> body ''city'' = Some (JPlaces [square, suburb]))"
proof -
  note inst = split_buckets [of crowded]
  from inst have d: "dom (split_by_categories crowded) = {''city'', ''art''}"
    by (simp add: crowded_categories)
  from d obtain ps1 where c: "split_by_categories crowded ''city'' = Some ps1" by blast
  from d obtain ps2 where a: "split_by_categories crowded ''art'' = Some ps2" by blast
  from d have "''sport'' \<notin> dom (split_by_categories crowded)" by simp
  then have n: "split_by_categories crowded ''sport'' = None" by (simp add: domIff)
  from inst c have "length ps1 = min 10 (length (filter (\<lambda>p. category p = ''city'') crowded))"
    by blast
  then have l1: "length ps1 = 10" by (simp add: crowded_city)
  from inst a have "length ps2 = min 10 (length (filter (\<lambda>p. category p = ''art'') crowded))"
    by blast
  then have l2: "length ps2 = 3" by (simp add: crowded_art)
  let ?req = "example_request\<lparr>req_split_categories := Some True\<rparr>"
  let ?data = "example_data\<lparr>apply_filters := False, split_categories := True\<rparr>"
  let ?qs = "[gallery, studio, square, suburb]"
  have q: "get_filters_applied_queryset example_geo example_db 7 ?data = Inr ?qs"
    by (simp add: get_filters_applied_queryset_def base_queryset_def example_user_places)
  have sp: "split_categories ?data" by simp
  have v: "is_valid ?req = Inr ?data" by (rule example_request_valid)
  from split_buckets [of crowded ?req ?data example_geo example_db 7 ?qs "\<lambda>p. True"]
  have "is_valid ?req = Inr ?data \<and> split_categories ?data
        \<and> get_filters_applied_queryset example_geo example_db 7 ?data = Inr ?qs \<longrightarrow>
        (\<exists>body. post example_geo (\<lambda>p. True) example_db 7 ?req = Response200 body
           \<and> (\<forall>k ps. body k = Some (JPlaces ps) \<longleftrightarrow>
                  split_by_categories (filter (\<lambda>p. True) ?qs) k = Some ps))"
    by (elim conjE)
  with v sp q obtain body where body:
    "post example_geo (\<lambda>p. True) example_db 7 ?req = Response200 body"
    "\<forall>k ps. body k = Some (JPlaces ps) \<longleftrightarrow>
        split_by_categories (filter (\<lambda>p. True) ?qs) k = Some ps"
    by blast
  have "split_by_categories ?qs ''art'' = Some [gallery, studio]"
    "split_by_categories ?qs ''city'' = Some [square, suburb]"
    by (simp_all add: split_by_categories_eq gallery_def studio_def square_def suburb_def
        example_place_def)
  with body(2) have "body ''art'' = Some (JPlaces [gallery, studio])"
    "body ''city'' = Some (JPlaces [square, suburb])"
    by simp_all
  with body(1) c a n l1 l2 show ?thesis by simp
qed

end
